theory Spec2Isabelle
  imports Complex_Main "HOL-Library.Sublist" "HOL-Library.Char_ord" "HOL-Library.List_Lexorder"
    "HOL-Library.Product_Lexorder"
begin

section \<open>Text primitives shared by the QA engine, the evaluator and the challenge generator\<close>

text \<open>
  Python strings are modelled as \<^typ>\<open>string\<close>; the model covers ASCII text, where a
  character is one code point.  A float is modelled by its exact value in \<^typ>\<open>real\<close>.

  \<^verbatim>\<open>\s\<close> of \<^verbatim>\<open>re\<close> and \<^verbatim>\<open>str.strip()\<close> use the same whitespace class; on ASCII it is
  space, \<^verbatim>\<open>\t \n \v \f \r\<close> and the four separators 0x1C..0x1F.
\<close>

definition whitespace_chars :: "char list" where
  "whitespace_chars =
     [CHR '' '', CHR 0x09, CHR 0x0A, CHR 0x0B, CHR 0x0C, CHR 0x0D,
      CHR 0x1C, CHR 0x1D, CHR 0x1E, CHR 0x1F]"

definition is_space :: "char \<Rightarrow> bool" where
  "is_space c = (c \<in> set whitespace_chars)"

text \<open>The character class \<^verbatim>\<open>[.!?]\<close> of the sentence-splitting pattern.\<close>

definition is_sentence_end :: "char \<Rightarrow> bool" where
  "is_sentence_end c = (c \<in> set ''.!?'')"

text \<open>\<^verbatim>\<open>\w\<close> on ASCII: letters, digits and the underscore.\<close>

definition word_chars :: "char list" where
  "word_chars =
     ''abcdefghijklmnopqrstuvwxyzABCDEFGHIJKLMNOPQRSTUVWXYZ0123456789_''"

definition is_word_char :: "char \<Rightarrow> bool" where
  "is_word_char c = (c \<in> set word_chars)"

text \<open>\<^verbatim>\<open>str.lower()\<close> on ASCII.\<close>

definition lower_char :: "char \<Rightarrow> char" where
  "lower_char c =
     (case map_of (zip ''ABCDEFGHIJKLMNOPQRSTUVWXYZ'' ''abcdefghijklmnopqrstuvwxyz'') c of
        None \<Rightarrow> c
      | Some d \<Rightarrow> d)"

definition lower :: "string \<Rightarrow> string" where
  "lower s = map lower_char s"

text \<open>\<^verbatim>\<open>str.strip()\<close>: whitespace removed at both ends.\<close>

definition strip :: "string \<Rightarrow> string" where
  "strip s = rev (dropWhile is_space (rev (dropWhile is_space s)))"

text \<open>
  \<^verbatim>\<open>re.findall(r'\b\w+\b', s)\<close>: the maximal runs of word characters, left to right.
  \<open>cur\<close> holds the run being read, reversed.
\<close>

fun findall_words_from :: "string \<Rightarrow> string \<Rightarrow> string list" where
  "findall_words_from cur [] = (if cur = [] then [] else [rev cur])"
| "findall_words_from cur (c # cs) =
     (if is_word_char c then findall_words_from (c # cur) cs
      else if cur = [] then findall_words_from [] cs
      else rev cur # findall_words_from [] cs)"

definition findall_words :: "string \<Rightarrow> string list" where
  "findall_words s = findall_words_from [] s"

text \<open>
  \<^verbatim>\<open>re.split(r'(?<=[.!?])\s+', text)\<close>.  A match is a maximal whitespace run whose
  preceding character is one of \<^verbatim>\<open>. ! ?\<close>; the pieces between the matches are returned,
  so the result is never empty.  \<open>after_end\<close> says whether the character just read is a
  sentence end (the look-behind); it is false at the start of the text and after a match.
\<close>

function re_split_sentences :: "bool \<Rightarrow> string \<Rightarrow> string list" where
  "re_split_sentences after_end [] = [[]]"
| "re_split_sentences after_end (c # cs) =
     (if after_end \<and> is_space c
      then [] # re_split_sentences False (dropWhile is_space cs)
      else (case re_split_sentences (is_sentence_end c) cs of
              [] \<Rightarrow> [[c]]
            | p # ps \<Rightarrow> (c # p) # ps))"
  by pat_completeness auto
termination
  by (relation "measure (\<lambda>(b, s). length s)")
     (auto simp: length_dropWhile_le less_Suc_eq_le)

text \<open>
  \<^verbatim>\<open>_split_into_sentences\<close> (the same body in \<^verbatim>\<open>QAEngine\<close> and \<^verbatim>\<open>AnswerEvaluator\<close>):
  \<^verbatim>\<open>[s.strip() for s in sentences if s.strip() and len(s.strip()) > 10]\<close>.
\<close>

definition split_into_sentences :: "string \<Rightarrow> string list" where
  "split_into_sentences text =
     (let sentences = re_split_sentences False text
      in filter (\<lambda>s. s \<noteq> [] \<and> 10 < length s) (map strip sentences))"

text \<open>
  The sentences \<open>ss\<close> occur in the text \<open>t\<close> one after the other, without overlap:
  \<open>t = g\<^sub>0 @ s\<^sub>1 @ g\<^sub>1 @ \<dots> @ s\<^sub>n @ g\<^sub>n\<close>.
\<close>

inductive in_source_order :: "string list \<Rightarrow> string \<Rightarrow> bool" where
  no_more: "in_source_order [] t"
| next_sentence: "in_source_order ss post \<Longrightarrow> in_source_order (s # ss) (pre @ s @ post)"

text \<open>\<^verbatim>\<open>sep.join(parts)\<close>.\<close>

fun join :: "string \<Rightarrow> string list \<Rightarrow> string" where
  "join sep [] = []"
| "join sep [p] = p"
| "join sep (p # q # ps) = p @ sep @ join sep (q # ps)"

text \<open>\<^verbatim>\<open>s.split()\<close>: the maximal runs of non-whitespace characters.\<close>

fun split_whitespace_from :: "string \<Rightarrow> string \<Rightarrow> string list" where
  "split_whitespace_from cur [] = (if cur = [] then [] else [rev cur])"
| "split_whitespace_from cur (c # cs) =
     (if \<not> is_space c then split_whitespace_from (c # cur) cs
      else if cur = [] then split_whitespace_from [] cs
      else rev cur # split_whitespace_from [] cs)"

definition split_whitespace :: "string \<Rightarrow> string list" where
  "split_whitespace s = split_whitespace_from [] s"

text \<open>
  The set of words of a text, as the source builds it:
  \<^verbatim>\<open>set(re.findall(r'\b\w+\b', s.lower()))\<close>.  A Python set is modelled as a list without
  duplicates; only its size and membership are used.
\<close>

definition word_set :: "string \<Rightarrow> string list" where
  "word_set s = remdups (findall_words (lower s))"

text \<open>\<^verbatim>\<open>len(a.intersection(b))\<close> for two sets given as duplicate-free lists.\<close>

definition intersection_size :: "string list \<Rightarrow> string list \<Rightarrow> nat" where
  "intersection_size a b = length (filter (\<lambda>w. w \<in> set b) a)"

datatype py_error = ZeroDivisionError | ValueError | IndexError | ModelError

section \<open>The embedder and the relevance ranker\<close>

text \<open>
  The sentence embedder is an external model.  \<open>cos_sim e q c\<close> is the cosine similarity of
  the embeddings of \<open>q\<close> and \<open>c\<close>, and \<open>raises e q cs\<close> says whether encoding these inputs
  throws.  \<^verbatim>\<open>cosine_similarity(encode([q]), encode(cs))[0]\<close> has one entry per candidate.
\<close>

record embedder =
  cos_sim :: "string \<Rightarrow> string \<Rightarrow> real"
  raises :: "string \<Rightarrow> string list \<Rightarrow> bool"

definition similarities_of :: "embedder \<Rightarrow> string \<Rightarrow> string list \<Rightarrow> py_error + real list" where
  "similarities_of e q cs =
     (if raises e q cs then Inl ModelError else Inr (map (cos_sim e q) cs))"

text \<open>
  \<^verbatim>\<open>np.argsort\<close> is called with its default sort kind, which is not stable: the
  result lists every index once, in ascending order of the values, and the order of
  indices with equal values is not fixed.  The function is therefore a parameter, and
  \<open>is_argsort xs idx\<close> is all that is known of its result \<open>idx\<close> on \<open>xs\<close>.
\<close>

type_synonym argsort_fn = "real list \<Rightarrow> nat list"

definition is_argsort :: "real list \<Rightarrow> nat list \<Rightarrow> bool" where
  "is_argsort xs idx =
     (distinct idx \<and> set idx = {0..<length xs} \<and> sorted (map (\<lambda>i. xs ! i) idx))"

text \<open>
  Two functions that meet this contract: the first leaves equal values in index order,
  the second puts them in descending index order.
\<close>

definition argsort_ties_ascending :: argsort_fn where
  "argsort_ties_ascending xs = sort_key (\<lambda>i. xs ! i) [0..<length xs]"

definition argsort_ties_descending :: argsort_fn where
  "argsort_ties_descending xs = rev (sort_key (\<lambda>i. - (xs ! i)) [0..<length xs])"

text \<open>
  The body of the \<^verbatim>\<open>try\<close> block once the similarities are known:
  \<^verbatim>\<open>top_indices = np.argsort(similarities)[::-1][:k]\<close> and
  \<^verbatim>\<open>[cands[i] for i in top_indices if similarities[i] > 0.3]\<close>.  An index out of
  range raises \<^verbatim>\<open>IndexError\<close>.
\<close>

definition relevant_candidates ::
  "argsort_fn \<Rightarrow> nat \<Rightarrow> real list \<Rightarrow> string list \<Rightarrow> py_error + string list" where
  "relevant_candidates argsort k similarities cands =
     (let top_indices = take k (rev (argsort similarities))
      in if list_ex (\<lambda>i. length similarities \<le> i \<or>
                          (similarities ! i > 3 / 10 \<and> length cands \<le> i)) top_indices
         then Inl IndexError
         else Inr (map (\<lambda>i. cands ! i)
                     (filter (\<lambda>i. similarities ! i > 3 / 10) top_indices)))"

text \<open>
  \<^verbatim>\<open>QAEngine._find_relevant_chunks\<close>; \<open>None\<close> is \<^verbatim>\<open>self.embedder = None\<close>.  Every
  exception inside the \<^verbatim>\<open>try\<close> block ends in \<^verbatim>\<open>chunks[:3]\<close>.
\<close>

definition find_relevant_chunks ::
  "argsort_fn \<Rightarrow> embedder option \<Rightarrow> string \<Rightarrow> string list \<Rightarrow> string list" where
  "find_relevant_chunks argsort emb question chunks =
     (case emb of
        None \<Rightarrow> take 3 chunks
      | Some e \<Rightarrow>
          (case similarities_of e question chunks of
             Inl err \<Rightarrow> take 3 chunks
           | Inr similarities \<Rightarrow>
               (case relevant_candidates argsort 3 similarities chunks of
                  Inl err \<Rightarrow> take 3 chunks
                | Inr relevant_chunks \<Rightarrow>
                    if relevant_chunks \<noteq> [] then relevant_chunks else take 2 chunks)))"

text \<open>\<^verbatim>\<open>AnswerEvaluator._find_relevant_sentences\<close>.\<close>

definition find_relevant_sentences ::
  "argsort_fn \<Rightarrow> embedder option \<Rightarrow> string \<Rightarrow> string \<Rightarrow> string list" where
  "find_relevant_sentences argsort emb question document_text =
     (let sentences = split_into_sentences document_text
      in case emb of
           None \<Rightarrow> take 5 sentences
         | Some e \<Rightarrow>
             (case similarities_of e question sentences of
                Inl err \<Rightarrow> take 3 sentences
              | Inr similarities \<Rightarrow>
                  (case relevant_candidates argsort 5 similarities sentences of
                     Inl err \<Rightarrow> take 3 sentences
                   | Inr relevant_sentences \<Rightarrow>
                       if relevant_sentences \<noteq> [] then relevant_sentences
                       else take 3 sentences)))"

text \<open>
  The ranking the specification describes for the case that no candidate clears the
  threshold: the \<open>k\<close> candidates of highest raw similarity, best first.
\<close>

definition spec_top_k_by_similarity :: "nat \<Rightarrow> real list \<Rightarrow> string list \<Rightarrow> string list" where
  "spec_top_k_by_similarity k sims cands =
     map (\<lambda>i. cands ! i) (take k (rev (sort_key (\<lambda>i. sims ! i) [0..<length sims])))"

section \<open>Answer evaluator\<close>

record evaluation =
  ev_score :: real
  ev_percentage :: real
  ev_feedback :: string
  ev_analysis :: string
  ev_grade :: string

text \<open>
  A challenge question: the dictionary with the keys \<^verbatim>\<open>question\<close>, \<^verbatim>\<open>concepts\<close>,
  \<^verbatim>\<open>type\<close> and \<^verbatim>\<open>difficulty\<close> that the challenge generator builds.
\<close>

record challenge_question =
  q_question :: string
  q_concepts :: "string list"
  q_type :: string
  q_difficulty :: string

text \<open>\<^verbatim>\<open>AnswerEvaluator._get_grade\<close>.\<close>

definition get_grade :: "real \<Rightarrow> string" where
  "get_grade score =
     (if score \<ge> 9 / 10 then ''A+''
      else if score \<ge> 8 / 10 then ''A''
      else if score \<ge> 7 / 10 then ''B+''
      else if score \<ge> 6 / 10 then ''B''
      else if score \<ge> 5 / 10 then ''C+''
      else if score \<ge> 4 / 10 then ''C''
      else if score \<ge> 3 / 10 then ''D''
      else ''F'')"

text \<open>The order of the letter grades, \<open>F\<close> lowest and \<open>A+\<close> highest.\<close>

definition grade_rank :: "string \<Rightarrow> nat" where
  "grade_rank g =
     (if g = ''A+'' then 7 else if g = ''A'' then 6 else if g = ''B+'' then 5
      else if g = ''B'' then 4 else if g = ''C+'' then 3 else if g = ''C'' then 2
      else if g = ''D'' then 1 else 0)"

text \<open>
  Python floats are IEEE doubles.  A double is modelled by its exact real value, and
  every float operation is the exact operation followed by \<open>round_to_double\<close>: rounding
  to the nearest double, a tie going to the even significand.  \<open>double_ulp x\<close> is the
  spacing of the doubles around \<open>x\<close> (53-bit significand, least normal exponent -1022).
  Infinities and NaN are outside the model; the values here stay below 101.
\<close>

definition round_half_even :: "real \<Rightarrow> int" where
  "round_half_even y =
     (let f = \<lfloor>y\<rfloor>; d = y - of_int f
      in if d < 1 / 2 then f else if 1 / 2 < d then f + 1 else if even f then f else f + 1)"

definition double_ulp :: "real \<Rightarrow> real" where
  "double_ulp x = 2 powr (of_int (max \<lfloor>log 2 \<bar>x\<bar>\<rfloor> (- 1022)) - 52)"

definition round_to_double :: "real \<Rightarrow> real" where
  "round_to_double x =
     (if x = 0 then 0 else of_int (round_half_even (x / double_ulp x)) * double_ulp x)"

text \<open>
  \<^verbatim>\<open>round(x, ndigits)\<close> of a double \<open>x\<close>: the exact value of \<open>x\<close> is rounded to the
  nearest multiple of \<open>10\<^sup>-\<^sup>n\<close> (a tie going to the even one), and the double
  nearest to that decimal is returned.
\<close>

definition py_round :: "real \<Rightarrow> nat \<Rightarrow> real" where
  "py_round x n = round_to_double (of_int (round_half_even (x * 10 ^ n)) / 10 ^ n)"

text \<open>\<^verbatim>\<open>AnswerEvaluator._create_evaluation\<close>.\<close>

definition create_evaluation :: "real \<Rightarrow> string \<Rightarrow> string \<Rightarrow> evaluation" where
  "create_evaluation score feedback analysis =
     \<lparr>ev_score = py_round score 2,
      ev_percentage = py_round (round_to_double (score * 100)) 1,
      ev_feedback = feedback,
      ev_analysis = analysis,
      ev_grade = get_grade score\<rparr>"

text \<open>
  \<^verbatim>\<open>AnswerEvaluator._combine_scores\<close>.  The weights are the doubles nearest to 0.4 and
  0.3.  \<open>overall_score\<close> is the local variable of that name, the value of
  \<^verbatim>\<open>semantic_score * 0.4 + keyword_score * 0.3 + content_score * 0.3\<close> in double
  arithmetic, before \<^verbatim>\<open>min(max(overall_score, 0.0), 1.0)\<close>.
\<close>

definition weight_semantic :: real where
  "weight_semantic = round_to_double (4 / 10)"

definition weight_keyword :: real where
  "weight_keyword = round_to_double (3 / 10)"

definition weight_content :: real where
  "weight_content = round_to_double (3 / 10)"

definition overall_score :: "real \<Rightarrow> real \<Rightarrow> real \<Rightarrow> real" where
  "overall_score semantic_score keyword_score content_score =
     round_to_double
       (round_to_double
          (round_to_double (semantic_score * weight_semantic) +
           round_to_double (keyword_score * weight_keyword)) +
        round_to_double (content_score * weight_content))"

definition combine_scores :: "real \<Rightarrow> real \<Rightarrow> real \<Rightarrow> real" where
  "combine_scores semantic_score keyword_score content_score =
     min (max (overall_score semantic_score keyword_score content_score) 0) 1"

text \<open>\<^verbatim>\<open>AnswerEvaluator._generate_feedback\<close>; only the overall score decides.\<close>

definition generate_feedback :: "real \<Rightarrow> real \<Rightarrow> real \<Rightarrow> real \<Rightarrow> string \<Rightarrow> string" where
  "generate_feedback overall semantic_score keyword_score content_score user_answer =
     (if overall \<ge> 8 / 10
      then ''Excellent answer! Your response demonstrates strong understanding of the document content.''
      else if overall \<ge> 6 / 10
      then ''Good answer! You've captured the main points, but could provide more specific details.''
      else if overall \<ge> 4 / 10
      then ''Fair answer. Consider including more relevant concepts and specific information from the document.''
      else if overall \<ge> 2 / 10
      then ''Your answer needs improvement. Try to focus more on the specific concepts mentioned in the question.''
      else ''Your answer doesn't seem to address the question effectively. Please review the document content.'')"

text \<open>
  The significant words of a text: its word set without stop words and without words of
  at most 3 characters.  The stop-word list of NLTK is a parameter.
\<close>

definition significant_words :: "string list \<Rightarrow> string \<Rightarrow> string list" where
  "significant_words stop_words s =
     filter (\<lambda>w. w \<notin> set stop_words \<and> 3 < length w) (word_set s)"

text \<open>
  \<^verbatim>\<open>AnswerEvaluator._calculate_semantic_similarity\<close>.  \<open>np_mean\<close> stands for
  \<^verbatim>\<open>float(np.mean(similarities))\<close>, numpy's mean of the single-precision similarities.
\<close>

definition calculate_semantic_similarity ::
  "(real list \<Rightarrow> real) \<Rightarrow> embedder option \<Rightarrow> string \<Rightarrow> string list \<Rightarrow> real" where
  "calculate_semantic_similarity np_mean emb user_answer relevant_sentences =
     (case emb of
        None \<Rightarrow> 1 / 2
      | Some e \<Rightarrow>
          if relevant_sentences = [] then 1 / 2
          else (case similarities_of e user_answer relevant_sentences of
                  Inl err \<Rightarrow> 1 / 2
                | Inr similarities \<Rightarrow> np_mean similarities))"

text \<open>\<^verbatim>\<open>AnswerEvaluator._calculate_keyword_overlap\<close>.\<close>

definition calculate_keyword_overlap :: "string list \<Rightarrow> string \<Rightarrow> string list \<Rightarrow> string \<Rightarrow> real" where
  "calculate_keyword_overlap stop_words user_answer expected_concepts document_text =
     (if expected_concepts = [] then 1 / 2
      else
        let answer_words = significant_words stop_words user_answer;
            concept_words = remdups (concat (map (\<lambda>concept. findall_words (lower concept))
                                              expected_concepts))
        in if concept_words = [] then 1 / 2
           else
             let overlap = intersection_size answer_words concept_words;
                 overlap_score = round_to_double (real overlap / real (length concept_words))
             in min overlap_score 1)"

text \<open>\<^verbatim>\<open>AnswerEvaluator._calculate_content_relevance\<close>.\<close>

definition calculate_content_relevance :: "string list \<Rightarrow> string \<Rightarrow> string list \<Rightarrow> real" where
  "calculate_content_relevance stop_words user_answer relevant_sentences =
     (if relevant_sentences = [] then 1 / 2
      else
        let answer_words = significant_words stop_words user_answer
        in if answer_words = [] then 0
           else
             let sentence_words =
                   remdups (concat (map (\<lambda>sentence.
                       filter (\<lambda>w. w \<notin> set stop_words \<and> 3 < length w)
                         (findall_words (lower sentence))) relevant_sentences))
             in if sentence_words = [] then 1 / 2
                else
                  let overlap = intersection_size answer_words sentence_words;
                      relevance_score =
                        round_to_double (real overlap / real (length answer_words))
                  in min relevance_score 1)"

text \<open>\<^verbatim>\<open>AnswerEvaluator._generate_analysis\<close>.\<close>

definition generate_analysis :: "challenge_question \<Rightarrow> string \<Rightarrow> string list \<Rightarrow> real \<Rightarrow> string" where
  "generate_analysis question user_answer relevant_sentences overall =
     (let answer_length = length (split_whitespace user_answer);
          length_part =
            (if answer_length < 10
             then ''Your answer is quite brief. Consider providing more detailed explanations.''
             else if answer_length > 100
             then ''Your answer is comprehensive, which is good for demonstrating understanding.''
             else ''Your answer has an appropriate length for this type of question.'');
          expected_concepts = q_concepts question;
          covered_concepts =
            filter (\<lambda>concept. sublist (lower concept) (lower user_answer)) expected_concepts;
          concept_part =
            (if expected_concepts = [] then []
             else if covered_concepts \<noteq> []
             then [''You covered these key concepts: '' @ join '', '' covered_concepts @ ''.'']
             else [''Consider including more of the key concepts mentioned in the question.'']);
          overall_part =
            (if overall \<ge> 7 / 10
             then ''Overall, this is a strong response that demonstrates good comprehension.''
             else if overall \<ge> 5 / 10
             then ''This response shows some understanding but could be more specific.''
             else ''This response needs significant improvement to demonstrate understanding.'')
      in join '' '' ([length_part] @ concept_part @ [overall_part]))"

text \<open>
  \<^verbatim>\<open>AnswerEvaluator.evaluate_answer\<close>.  The question is \<open>None\<close> when the caller passes an
  empty dictionary or \<^verbatim>\<open>None\<close> (\<^verbatim>\<open>not question\<close>).  The embedder's exceptions are
  caught inside the helpers, so the outer \<^verbatim>\<open>except\<close> branch has no case here.
\<close>

definition evaluate_answer ::
  "string list \<Rightarrow> argsort_fn \<Rightarrow> (real list \<Rightarrow> real) \<Rightarrow> embedder option
    \<Rightarrow> challenge_question option \<Rightarrow> string \<Rightarrow> string \<Rightarrow> evaluation" where
  "evaluate_answer stop_words argsort np_mean emb question user_answer document_text =
     (case question of
        None \<Rightarrow> create_evaluation 0 ''No answer provided'' ''Please provide a detailed answer.''
      | Some q \<Rightarrow>
          if user_answer = []
          then create_evaluation 0 ''No answer provided'' ''Please provide a detailed answer.''
          else
            let relevant_sentences =
                  find_relevant_sentences argsort emb (q_question q) document_text
            in if relevant_sentences = []
               then create_evaluation (1 / 2) ''Limited context available''
                      ''I couldn't find specific information to evaluate your answer against.''
               else
                 let semantic_score =
                       calculate_semantic_similarity np_mean emb user_answer relevant_sentences;
                     keyword_score =
                       calculate_keyword_overlap stop_words user_answer (q_concepts q) document_text;
                     content_score =
                       calculate_content_relevance stop_words user_answer relevant_sentences;
                     overall = combine_scores semantic_score keyword_score content_score;
                     feedback =
                       generate_feedback overall semantic_score keyword_score content_score
                         user_answer;
                     analysis = generate_analysis q user_answer relevant_sentences overall
                 in create_evaluation overall feedback analysis)"

text \<open>
  Example embedders for concrete runs of the ranker: one that rates every candidate
  \<open>0.5\<close>, and one whose ratings all stay below the threshold and grow with the length of
  the candidate.
\<close>

definition example_tie_embedder :: embedder where
  "example_tie_embedder = \<lparr>cos_sim = (\<lambda>q c. 1 / 2), raises = (\<lambda>q cs. False)\<rparr>"

definition example_low_embedder :: embedder where
  "example_low_embedder =
     \<lparr>cos_sim = (\<lambda>q c. real (length c) / 100), raises = (\<lambda>q cs. False)\<rparr>"

section \<open>QA engine: chunks, lexical fallback and span extraction\<close>

text \<open>
  \<^verbatim>\<open>QAEngine._split_document_into_chunks\<close>: the loop
  \<^verbatim>\<open>for i in range(0, len(sentences), chunk_size // 2)\<close> over the sentence windows
  \<^verbatim>\<open>sentences[i:i + chunk_size]\<close>.
\<close>

function chunks_from :: "nat \<Rightarrow> nat \<Rightarrow> string list \<Rightarrow> string list" where
  "chunks_from chunk_size i sentences =
     (if i < length sentences \<and> 0 < chunk_size div 2
      then (let chunk = join '' '' (take chunk_size (drop i sentences))
            in (if strip chunk \<noteq> [] then [chunk] else []) @
               chunks_from chunk_size (i + chunk_size div 2) sentences)
      else [])"
  by pat_completeness auto
termination
  by (relation "measure (\<lambda>(chunk_size, i, sentences). length sentences - i)") auto

text \<open>The engine calls it with the default \<^verbatim>\<open>chunk_size = 500\<close> only.\<close>

definition split_document_into_chunks :: "string \<Rightarrow> string list" where
  "split_document_into_chunks text = chunks_from 500 0 (split_into_sentences text)"

text \<open>
  The scoring loop of \<^verbatim>\<open>QAEngine._generate_fallback_answer\<close> over the sentences of the
  chunks.  The division \<^verbatim>\<open>overlap / len(question_words)\<close> raises for an empty word set;
  it is reached only when \<open>overlap > 0\<close>.
\<close>

definition length_filter_words :: "string \<Rightarrow> string list" where
  "length_filter_words s = filter (\<lambda>w. 3 < length w) (word_set s)"

fun score_sentences :: "string list \<Rightarrow> string list \<Rightarrow> py_error + (real \<times> string) list" where
  "score_sentences question_words [] = Inr []"
| "score_sentences question_words (sentence # rest) =
     (let sentence_words = length_filter_words sentence;
          overlap = intersection_size question_words sentence_words
      in if overlap > 0
         then (if length question_words = 0 then Inl ZeroDivisionError
               else (case score_sentences question_words rest of
                       Inl err \<Rightarrow> Inl err
                     | Inr sentence_scores \<Rightarrow>
                         Inr ((real overlap / real (length question_words), sentence)
                              # sentence_scores)))
         else score_sentences question_words rest)"

definition could_not_find_answer :: string where
  "could_not_find_answer =
     ''I couldn't find a specific answer to your question in the document.''"

text \<open>
  \<^verbatim>\<open>QAEngine._generate_fallback_answer\<close>.  \<^verbatim>\<open>sentence_scores.sort(reverse=True)\<close> orders
  the pairs \<open>(score, sentence)\<close> descending, by score and then by sentence.
\<close>

definition generate_fallback_answer :: "string \<Rightarrow> string list \<Rightarrow> py_error + (string \<times> string list)" where
  "generate_fallback_answer question chunks =
     (let question_words = length_filter_words question
      in case score_sentences question_words (concat (map split_into_sentences chunks)) of
           Inl err \<Rightarrow> Inl err
         | Inr sentence_scores \<Rightarrow>
             (let sorted_scores = rev (sort sentence_scores);
                  top_sentences =
                    map snd (filter (\<lambda>(score, sentence). score > 2 / 10) (take 2 sorted_scores))
              in if top_sentences \<noteq> []
                 then (let answer = join '' '' top_sentences
                       in if length answer > 300
                          then Inr (take 300 answer @ ''...'', top_sentences)
                          else Inr (answer, top_sentences))
                 else Inr (could_not_find_answer, [])))"

text \<open>
  The span extractor is an external model: given question and context it returns an
  answer with a confidence and offsets, or throws.
\<close>

record qa_result =
  qa_score :: real
  qa_answer :: string
  qa_start :: nat
  qa_end :: nat

type_synonym qa_pipeline = "string \<Rightarrow> string \<Rightarrow> py_error + qa_result"

text \<open>The first sentence that contains the answer, compared in lower case.\<close>

definition first_sentence_containing :: "string \<Rightarrow> string list \<Rightarrow> string list" where
  "first_sentence_containing best_answer sentences =
     (case filter (\<lambda>sentence. sublist (lower best_answer) (lower sentence)) sentences of
        [] \<Rightarrow> []
      | sentence # rest \<Rightarrow> [sentence])"

text \<open>
  The loop of \<^verbatim>\<open>QAEngine._generate_qa_answer\<close> over the chunks; the state is
  \<open>(best_answer, best_score, source_sentences)\<close>.  A chunk on which the pipeline throws is
  skipped.
\<close>

fun qa_loop :: "qa_pipeline \<Rightarrow> string \<Rightarrow> string list \<Rightarrow> string \<times> real \<times> string list
    \<Rightarrow> string \<times> real \<times> string list" where
  "qa_loop pipeline question [] state = state"
| "qa_loop pipeline question (chunk # chunks) (best_answer, best_score, source_sentences) =
     (case pipeline question chunk of
        Inl err \<Rightarrow> qa_loop pipeline question chunks (best_answer, best_score, source_sentences)
      | Inr result \<Rightarrow>
          if qa_score result > best_score \<and> qa_answer result \<noteq> []
          then qa_loop pipeline question chunks
                 (qa_answer result, qa_score result,
                  source_sentences @
                    first_sentence_containing (qa_answer result) (split_into_sentences chunk))
          else qa_loop pipeline question chunks (best_answer, best_score, source_sentences))"

text \<open>\<^verbatim>\<open>QAEngine._generate_qa_answer\<close>.\<close>

definition generate_qa_answer :: "qa_pipeline \<Rightarrow> string \<Rightarrow> string list \<Rightarrow> py_error + (string \<times> string list)" where
  "generate_qa_answer pipeline question chunks =
     (case qa_loop pipeline question chunks ([], 0, []) of
        (best_answer, best_score, source_sentences) \<Rightarrow>
          if best_answer = [] then generate_fallback_answer question chunks
          else Inr (best_answer, source_sentences))"

text \<open>
  An example span extractor for a concrete run: it answers \<open>red\<close> with confidence 0.5 on
  a context that mentions the mat, and \<open>blue\<close> with confidence 0.9 on any other.
\<close>

definition example_pipeline :: qa_pipeline where
  "example_pipeline question context =
     (if sublist ''mat'' context
      then Inr \<lparr>qa_score = 5 / 10, qa_answer = ''red'', qa_start = 12, qa_end = 15\<rparr>
      else Inr \<lparr>qa_score = 9 / 10, qa_answer = ''blue'', qa_start = 11, qa_end = 15\<rparr>)"

section \<open>Challenge generator\<close>

text \<open>
  The random source: \<open>rand n\<close> is the \<open>n\<close>-th raw draw.  The three question attempts use
  the draws \<open>3 * i\<close>, \<open>3 * i + 1\<close> (the sample) and \<open>3 * i + 2\<close> (the template); the
  padding loop uses the draws from 9 on.
\<close>

type_synonym rng = "nat \<Rightarrow> nat"

text \<open>\<^verbatim>\<open>random.choice(xs)\<close>; it raises \<^verbatim>\<open>IndexError\<close> on an empty sequence.\<close>

definition random_choice :: "rng \<Rightarrow> nat \<Rightarrow> 'a list \<Rightarrow> py_error + 'a" where
  "random_choice rand pos xs =
     (if xs = [] then Inl IndexError else Inr (xs ! (rand pos mod length xs)))"

text \<open>
  \<^verbatim>\<open>random.sample(xs, k)\<close>: \<open>k\<close> elements at distinct positions; it raises
  \<^verbatim>\<open>ValueError\<close> when \<open>k\<close> exceeds the length.
\<close>

fun random_sample :: "rng \<Rightarrow> nat \<Rightarrow> 'a list \<Rightarrow> nat \<Rightarrow> py_error + 'a list" where
  "random_sample rand pos xs 0 = Inr []"
| "random_sample rand pos xs (Suc k) =
     (if xs = [] then Inl ValueError
      else (let i = rand pos mod length xs
            in case random_sample rand (Suc pos) (take i xs @ drop (Suc i) xs) k of
                 Inl err \<Rightarrow> Inl err
               | Inr picked \<Rightarrow> Inr (xs ! i # picked)))"

text \<open>A format string: literal text and the named fields the templates use.\<close>

datatype slot = Lit string | Topic | Concept1 | Concept2 | Concept

definition question_templates :: "slot list list" where
  "question_templates =
     [[Lit ''What is the main argument presented about '', Topic, Lit ''?''],
      [Lit ''How does the document explain the relationship between '', Concept1,
       Lit '' and '', Concept2, Lit ''?''],
      [Lit ''What evidence does the author provide to support the claim about '', Topic,
       Lit ''?''],
      [Lit ''According to the document, what are the key factors that influence '', Concept,
       Lit ''?''],
      [Lit ''What conclusion can be drawn about '', Topic,
       Lit '' based on the information provided?''],
      [Lit ''How does the document define or describe '', Concept, Lit ''?''],
      [Lit ''What are the implications of '', Concept, Lit '' as discussed in the document?''],
      [Lit ''Based on the document, what is the significance of '', Topic, Lit ''?''],
      [Lit ''What are the main differences between '', Concept1, Lit '' and '', Concept2,
       Lit '' as described?''],
      [Lit ''How does the author justify their position on '', Topic, Lit ''?'']]"

text \<open>\<^verbatim>\<open>template.format(topic=.., concept1=.., concept2=.., concept=..)\<close>.\<close>

fun fill_slot :: "string \<Rightarrow> string \<Rightarrow> string \<Rightarrow> string \<Rightarrow> slot \<Rightarrow> string" where
  "fill_slot topic concept1 concept2 concept (Lit s) = s"
| "fill_slot topic concept1 concept2 concept Topic = topic"
| "fill_slot topic concept1 concept2 concept Concept1 = concept1"
| "fill_slot topic concept1 concept2 concept Concept2 = concept2"
| "fill_slot topic concept1 concept2 concept Concept = concept"

definition format_template :: "slot list \<Rightarrow> string \<Rightarrow> string \<Rightarrow> string \<Rightarrow> string \<Rightarrow> string" where
  "format_template template topic concept1 concept2 concept =
     concat (map (fill_slot topic concept1 concept2 concept) template)"

text \<open>\<^verbatim>\<open>ChallengeGenerator._generate_fallback_questions\<close>.\<close>

definition generate_fallback_questions :: "challenge_question list" where
  "generate_fallback_questions =
     [\<lparr>q_question = ''What is the main topic discussed in this document?'',
       q_concepts = [''main topic'', ''document content''],
       q_type = ''comprehension'', q_difficulty = ''easy''\<rparr>,
      \<lparr>q_question = ''What are the key points or arguments presented in the document?'',
       q_concepts = [''key points'', ''arguments''],
       q_type = ''analysis'', q_difficulty = ''medium''\<rparr>,
      \<lparr>q_question =
         ''What conclusions or implications can be drawn from the information provided?'',
       q_concepts = [''conclusions'', ''implications''],
       q_type = ''synthesis'', q_difficulty = ''hard''\<rparr>]"

text \<open>
  The word-frequency dictionary of \<^verbatim>\<open>_extract_key_concepts\<close>, in insertion order:
  \<^verbatim>\<open>word_freq[word] = word_freq.get(word, 0) + 1\<close>.
\<close>

fun count_word :: "string \<Rightarrow> (string \<times> nat) list \<Rightarrow> (string \<times> nat) list" where
  "count_word word [] = [(word, 1)]"
| "count_word word ((w, n) # rest) =
     (if w = word then (w, n + 1) # rest else (w, n) # count_word word rest)"

text \<open>
  \<^verbatim>\<open>ChallengeGenerator._extract_key_concepts\<close>.  The NLTK tokenizer and stop-word list
  are parameters; the tokenizer may throw.  \<^verbatim>\<open>sorted(.., key=freq, reverse=True)\<close> is
  stable: words of equal frequency stay in insertion order.
\<close>

definition extract_key_concepts ::
  "string list \<Rightarrow> (string \<Rightarrow> py_error + string list) \<Rightarrow> string \<Rightarrow> py_error + string list" where
  "extract_key_concepts stop_words word_tokenize text =
     (let cleaned = map (\<lambda>c. if is_word_char c \<or> is_space c then c else CHR '' '') (lower text)
      in case word_tokenize cleaned of
           Inl err \<Rightarrow> Inl err
         | Inr tokens \<Rightarrow>
             (let words = filter (\<lambda>word. word \<notin> set stop_words \<and> 3 < length word) tokens;
                  word_freq = foldl (\<lambda>freq word. count_word word freq) [] words;
                  sorted_words = sort_key (\<lambda>(word, freq). - int freq) word_freq
              in Inr (map fst (filter (\<lambda>(word, freq). freq > 2) (take 20 sorted_words)))))"

text \<open>
  \<^verbatim>\<open>ChallengeGenerator._generate_single_question\<close>; \<open>None\<close> is the \<^verbatim>\<open>return None\<close> for
  fewer than 2 key concepts.
\<close>

definition generate_single_question ::
  "rng \<Rightarrow> nat \<Rightarrow> string \<Rightarrow> string list \<Rightarrow> string list \<Rightarrow> py_error + challenge_question option" where
  "generate_single_question rand pos text key_concepts used_concepts =
     (if length key_concepts < 2 then Inr None
      else
        let unused = filter (\<lambda>c. c \<notin> set used_concepts) key_concepts;
            available_concepts = (if length unused < 2 then take 2 key_concepts else unused)
        in case random_sample rand pos available_concepts (min 2 (length available_concepts)) of
             Inl err \<Rightarrow> Inl err
           | Inr selected_concepts \<Rightarrow>
               (case random_choice rand (pos + 2) question_templates of
                  Inl err \<Rightarrow> Inl err
                | Inr template \<Rightarrow>
                    (case selected_concepts of
                       [] \<Rightarrow> Inl IndexError
                     | [c] \<Rightarrow>
                         Inr (Some \<lparr>q_question = format_template template c c c c,
                                    q_concepts = selected_concepts,
                                    q_type = ''logic'', q_difficulty = ''medium''\<rparr>)
                     | c # c' # others \<Rightarrow>
                         Inr (Some \<lparr>q_question = format_template template c c c' c,
                                    q_concepts = selected_concepts,
                                    q_type = ''logic'', q_difficulty = ''medium''\<rparr>))))"

text \<open>\<^verbatim>\<open>ChallengeGenerator._generate_fallback_question\<close>; the sentence tokenizer is external.\<close>

definition generate_fallback_question ::
  "rng \<Rightarrow> nat \<Rightarrow> (string \<Rightarrow> py_error + string list) \<Rightarrow> string \<Rightarrow> py_error + challenge_question" where
  "generate_fallback_question rand pos sent_tokenize text =
     (case sent_tokenize text of
        Inl err \<Rightarrow> Inl err
      | Inr sentences \<Rightarrow>
          if sentences = [] then Inr (hd generate_fallback_questions)
          else (case random_choice rand pos (take 10 sentences) of
                  Inl err \<Rightarrow> Inl err
                | Inr key_sentence \<Rightarrow>
                    Inr \<lparr>q_question =
                           ''What does the document state about the following: '' @ [CHR 0x27] @
                           take 100 key_sentence @ ''...'' @ [CHR 0x27] @ ''?'',
                         q_concepts = [''document content'', ''key information''],
                         q_type = ''comprehension'', q_difficulty = ''easy''\<rparr>))"

text \<open>
  The loop \<^verbatim>\<open>for i in range(3)\<close> of \<^verbatim>\<open>generate_questions\<close>: \<open>i\<close> is the attempt and \<open>n\<close>
  the number of attempts left.
\<close>

fun question_loop ::
  "rng \<Rightarrow> string \<Rightarrow> string list \<Rightarrow> nat \<Rightarrow> nat \<Rightarrow> challenge_question list \<Rightarrow> string list
    \<Rightarrow> py_error + challenge_question list" where
  "question_loop rand text key_concepts i 0 questions used_concepts = Inr questions"
| "question_loop rand text key_concepts i (Suc n) questions used_concepts =
     (case generate_single_question rand (3 * i) text key_concepts used_concepts of
        Inl err \<Rightarrow> Inl err
      | Inr None \<Rightarrow> question_loop rand text key_concepts (Suc i) n questions used_concepts
      | Inr (Some question_data) \<Rightarrow>
          question_loop rand text key_concepts (Suc i) n (questions @ [question_data])
            (used_concepts @ q_concepts question_data))"

text \<open>The loop \<^verbatim>\<open>while len(questions) < 3\<close>; \<open>j\<close> counts its iterations.\<close>

function pad_with_fallbacks ::
  "rng \<Rightarrow> (string \<Rightarrow> py_error + string list) \<Rightarrow> string \<Rightarrow> nat \<Rightarrow> challenge_question list
    \<Rightarrow> py_error + challenge_question list" where
  "pad_with_fallbacks rand sent_tokenize text j questions =
     (if length questions < 3
      then (case generate_fallback_question rand (9 + j) sent_tokenize text of
              Inl err \<Rightarrow> Inl err
            | Inr fallback \<Rightarrow>
                pad_with_fallbacks rand sent_tokenize text (Suc j) (questions @ [fallback]))
      else Inr questions)"
  by pat_completeness auto
termination
  by (relation "measure (\<lambda>(rand, sent_tokenize, text, j, questions). 3 - length questions)") auto

text \<open>
  \<^verbatim>\<open>ChallengeGenerator.generate_questions\<close>.  Any exception inside the \<^verbatim>\<open>try\<close> block
  leads to the three fixed fallback questions.
\<close>

definition generate_questions_try ::
  "string list \<Rightarrow> (string \<Rightarrow> py_error + string list) \<Rightarrow> (string \<Rightarrow> py_error + string list)
    \<Rightarrow> rng \<Rightarrow> string \<Rightarrow> py_error + challenge_question list" where
  "generate_questions_try stop_words word_tokenize sent_tokenize rand document_text =
     (case extract_key_concepts stop_words word_tokenize document_text of
        Inl err \<Rightarrow> Inl err
      | Inr key_concepts \<Rightarrow>
          if length key_concepts < 2 then Inr generate_fallback_questions
          else (case question_loop rand document_text key_concepts 0 3 [] [] of
                  Inl err \<Rightarrow> Inl err
                | Inr questions \<Rightarrow>
                    (case pad_with_fallbacks rand sent_tokenize document_text 0 questions of
                       Inl err \<Rightarrow> Inl err
                     | Inr padded \<Rightarrow> Inr (take 3 padded))))"

definition generate_questions ::
  "string list \<Rightarrow> (string \<Rightarrow> py_error + string list) \<Rightarrow> (string \<Rightarrow> py_error + string list)
    \<Rightarrow> rng \<Rightarrow> string \<Rightarrow> challenge_question list" where
  "generate_questions stop_words word_tokenize sent_tokenize rand document_text =
     (if document_text = [] \<or> length (strip document_text) < 100
      then generate_fallback_questions
      else (case generate_questions_try stop_words word_tokenize sent_tokenize rand
                   document_text of
              Inl err \<Rightarrow> generate_fallback_questions
            | Inr questions \<Rightarrow> questions))"

text \<open>
  Example collaborators for a concrete run: tokenizers that split at whitespace and at
  sentence ends, and a random source that always draws 0.
\<close>

definition example_word_tokenize :: "string \<Rightarrow> py_error + string list" where
  "example_word_tokenize s = Inr (split_whitespace s)"

definition example_sent_tokenize :: "string \<Rightarrow> py_error + string list" where
  "example_sent_tokenize s = Inr (split_into_sentences s)"

definition example_rng :: rng where
  "example_rng n = 0"

definition example_document :: string where
  "example_document =
     ''Climate change affects ocean currents. Ocean warming drives climate shifts. Warmer ocean water alters climate patterns.''"

section \<open>Sentence segmenter\<close>

lemma in_source_order_shift: "in_source_order ss t \<Longrightarrow> in_source_order ss (x @ t)"
proof (induction rule: in_source_order.induct)
  case (no_more t)
  show ?case by (rule in_source_order.no_more)
next
  case (next_sentence ss post s pre)
  have "in_source_order (s # ss) ((x @ pre) @ s @ post)"
    using next_sentence.hyps by (rule in_source_order.next_sentence)
  then show ?case by simp
qed

lemma in_source_order_sublist:
  "in_source_order ss t \<Longrightarrow> s \<in> set ss \<Longrightarrow> sublist s t"
proof (induction arbitrary: s rule: in_source_order.induct)
  case (no_more t)
  then show ?case by simp
next
  case (next_sentence ss post s' pre)
  show ?case
  proof (cases "s = s'")
    case True
    have "pre @ s' @ post = pre @ s @ post" using True by simp
    then show ?thesis unfolding sublist_def by blast
  next
    case False
    with next_sentence have "sublist s post" by simp
    then obtain u v where "post = u @ s @ v" unfolding sublist_def by blast
    then have "pre @ s' @ post = (pre @ s' @ u) @ s @ v" by simp
    then show ?thesis unfolding sublist_def by blast
  qed
qed

lemma strip_decomp: "\<exists>a b. s = a @ strip s @ b"
proof -
  define u where "u = dropWhile is_space s"
  have "rev u = takeWhile is_space (rev u) @ dropWhile is_space (rev u)" by simp
  then have "u = rev (dropWhile is_space (rev u)) @ rev (takeWhile is_space (rev u))"
    by (metis rev_append rev_rev_ident)
  moreover have "s = takeWhile is_space s @ u" by (simp add: u_def)
  ultimately have "s = takeWhile is_space s @ strip s @ rev (takeWhile is_space (rev u))"
    by (simp add: strip_def u_def)
  then show ?thesis by blast
qed

lemma in_source_order_strip_filter:
  "in_source_order ss t \<Longrightarrow> in_source_order (filter P (map strip ss)) t"
proof (induction rule: in_source_order.induct)
  case (no_more t)
  then show ?case by (simp add: in_source_order.no_more)
next
  case (next_sentence ss post s pre)
  obtain a b where s: "a @ strip s @ b = s" using strip_decomp by metis
  have rest: "in_source_order (filter P (map strip ss)) (b @ post)"
    using next_sentence.IH by (rule in_source_order_shift)
  have eq1: "pre @ s @ post = (pre @ a) @ strip s @ (b @ post)"
    by (subst s [symmetric]) simp
  have eq2: "pre @ s @ post = (pre @ a @ strip s) @ (b @ post)"
    by (subst s [symmetric]) simp
  show ?case
  proof (cases "P (strip s)")
    case True
    have "in_source_order (strip s # filter P (map strip ss)) ((pre @ a) @ strip s @ (b @ post))"
      using rest by (rule in_source_order.next_sentence)
    then have "in_source_order (strip s # filter P (map strip ss)) (pre @ s @ post)"
      by (simp only: eq1)
    with True show ?thesis by simp
  next
    case False
    have "in_source_order (filter P (map strip ss)) ((pre @ a @ strip s) @ (b @ post))"
      using rest by (rule in_source_order_shift)
    then have "in_source_order (filter P (map strip ss)) (pre @ s @ post)"
      by (simp only: eq2)
    with False show ?thesis by simp
  qed
qed

lemma re_split_sentences_pieces:
  "\<exists>p ps rest. re_split_sentences b t = p # ps \<and> t = p @ rest \<and> in_source_order ps rest"
proof (induction b t rule: re_split_sentences.induct)
  case (1 after_end)
  show ?case by (simp add: in_source_order.no_more)
next
  case (2 after_end c cs)
  show ?case
  proof (cases "after_end \<and> is_space c")
    case True
    from 2(1) [OF True] obtain p ps rest where
      r: "re_split_sentences False (dropWhile is_space cs) = p # ps"
         "dropWhile is_space cs = p @ rest" "in_source_order ps rest"
      by blast
    have "in_source_order (p # ps) ((c # takeWhile is_space cs) @ p @ rest)"
      using r(3) by (rule in_source_order.next_sentence)
    moreover have "(c # takeWhile is_space cs) @ p @ rest = c # cs"
      by (simp add: r(2) [symmetric])
    ultimately have "in_source_order (p # ps) (c # cs)" by simp
    then have "re_split_sentences after_end (c # cs) = [] # p # ps \<and> c # cs = [] @ (c # cs) \<and>
       in_source_order (p # ps) (c # cs)"
      using True r(1) by simp
    then show ?thesis by blast
  next
    case False
    from 2(2) [OF False] obtain p ps rest where
      r: "re_split_sentences (is_sentence_end c) cs = p # ps"
         "cs = p @ rest" "in_source_order ps rest"
      by blast
    have "re_split_sentences after_end (c # cs) = (c # p) # ps \<and> c # cs = (c # p) @ rest \<and>
       in_source_order ps rest"
      using False r by simp
    then show ?thesis by blast
  qed
qed

lemma re_split_sentences_in_order: "in_source_order (re_split_sentences b t) t"
proof -
  obtain p ps rest where r: "re_split_sentences b t = p # ps" "t = p @ rest"
    "in_source_order ps rest"
    using re_split_sentences_pieces by blast
  have "in_source_order (p # ps) ([] @ p @ rest)"
    using r(3) by (rule in_source_order.next_sentence)
  with r show ?thesis by simp
qed

text \<open>
  Claim C6.  For every input text, every sentence returned by \<open>split_into_sentences\<close> is
  longer than 10 characters and is a contiguous substring of the input, and the sentences
  occur in the input one after the other in the order of the output.
\<close>

theorem split_into_sentences_verbatim_ordered:
  "(\<forall>s \<in> set (split_into_sentences text). 10 < length s \<and> sublist s text) \<and>
   in_source_order (split_into_sentences text) text"
proof -
  have ord: "in_source_order (split_into_sentences text) text"
    unfolding split_into_sentences_def Let_def
    by (rule in_source_order_strip_filter) (rule re_split_sentences_in_order)
  have "\<forall>s \<in> set (split_into_sentences text). 10 < length s"
    by (simp add: split_into_sentences_def)
  with ord show ?thesis
    by (blast intro: in_source_order_sublist)
qed

lemma split_into_sentences_cat:
  "split_into_sentences ''The cat sat on the mat. The mat was red. Cats like red mats.'' =
     [''The cat sat on the mat.'', ''The mat was red.'', ''Cats like red mats.'']"
  by code_simp

theorem split_into_sentences_verbatim_ordered_witness:
  "split_into_sentences ''The cat sat on the mat. The mat was red. Cats like red mats.'' =
     [''The cat sat on the mat.'', ''The mat was red.'', ''Cats like red mats.''] \<and>
   sublist ''The mat was red.'' ''The cat sat on the mat. The mat was red. Cats like red mats.'' \<and>
   in_source_order [''The cat sat on the mat.'', ''The mat was red.'', ''Cats like red mats.'']
     ''The cat sat on the mat. The mat was red. Cats like red mats.''"
  using split_into_sentences_verbatim_ordered
    [of "''The cat sat on the mat. The mat was red. Cats like red mats.''"]
  unfolding split_into_sentences_cat by simp

section \<open>Evaluator: score combination and grades\<close>

lemma round_half_even_error: "\<bar>of_int (round_half_even y) - y\<bar> \<le> 1 / 2"
proof -
  have "of_int \<lfloor>y\<rfloor> \<le> y" "y < of_int \<lfloor>y\<rfloor> + 1" by linarith+
  then show ?thesis by (auto simp: round_half_even_def Let_def)
qed

lemma double_ulp_pos: "0 < double_ulp x"
  by (simp add: double_ulp_def)

lemma double_ulp_small:
  assumes "x \<noteq> 0" "\<bar>x\<bar> < 2"
  shows "double_ulp x \<le> 1 / 2 ^ 52"
proof -
  have "log 2 \<bar>x\<bar> < log 2 2" using assms by (subst log_less_cancel_iff) auto
  then have "log 2 \<bar>x\<bar> < 1" by simp
  then have "\<lfloor>log 2 \<bar>x\<bar>\<rfloor> \<le> 0" by linarith
  then have "max \<lfloor>log 2 \<bar>x\<bar>\<rfloor> (- 1022) \<le> 0" by simp
  then have "of_int (max \<lfloor>log 2 \<bar>x\<bar>\<rfloor> (- 1022)) - 52 \<le> (- 52 :: real)" by simp
  then have "double_ulp x \<le> 2 powr (- 52)"
    unfolding double_ulp_def by (subst powr_le_cancel_iff) auto
  also have "2 powr (- 52 :: real) = 1 / 2 ^ 52"
    by (simp add: powr_minus_divide powr_numeral [symmetric] del: powr_numeral)
  finally show ?thesis .
qed

text \<open>Below 2 in absolute value, rounding to a double moves a number by at most \<open>2\<^sup>-\<^sup>5\<^sup>3\<close>.\<close>

lemma round_to_double_error:
  assumes "\<bar>x\<bar> < 2"
  shows "\<bar>round_to_double x - x\<bar> \<le> 1 / 2 ^ 53"
proof (cases "x = 0")
  case True
  then show ?thesis by (simp add: round_to_double_def)
next
  case False
  define u where "u = double_ulp x"
  have u: "0 < u" "u \<le> 1 / 2 ^ 52"
    using double_ulp_pos double_ulp_small [OF False assms] by (simp_all add: u_def)
  have "round_to_double x - x = (of_int (round_half_even (x / u)) - x / u) * u"
    using False u(1) by (simp add: round_to_double_def u_def algebra_simps)
  then have "\<bar>round_to_double x - x\<bar> = \<bar>of_int (round_half_even (x / u)) - x / u\<bar> * u"
    using u(1) by (simp add: abs_mult)
  also have "\<dots> \<le> (1 / 2) * u"
    using round_half_even_error [of "x / u"] u(1) by (intro mult_right_mono) auto
  also have "\<dots> \<le> (1 / 2) * (1 / 2 ^ 52)" using u(2) by simp
  finally show ?thesis by simp
qed

lemma two_powr_neg: "2 powr (- real m) = 1 / 2 ^ m"
  by (simp add: powr_minus_divide powr_realpow)

text \<open>The double nearest to a number between \<open>2\<^sup>-\<^sup>n\<^sup>-\<^sup>1\<close> and \<open>2\<^sup>-\<^sup>n\<close>.\<close>

lemma round_to_double_binade:
  assumes "1 / 2 ^ Suc n \<le> x" "x < 1 / 2 ^ n" "n < 1022"
  shows "round_to_double x = of_int (round_half_even (x * 2 ^ (n + 53))) / 2 ^ (n + 53)"
proof -
  have "(0::real) < 1 / 2 ^ Suc n" by simp
  with assms(1) have pos: "0 < x" by linarith
  have "2 powr (- real (Suc n)) \<le> x"
    using assms(1) by (simp only: two_powr_neg)
  moreover have "x < 2 powr (- real n)"
    using assms(2) by (simp only: two_powr_neg)
  ultimately have "- real (Suc n) \<le> log 2 x" "log 2 x < - real n"
    using pos by (simp_all add: le_log_iff log_less_iff del: of_nat_Suc)
  then have "\<lfloor>log 2 x\<rfloor> = - int (Suc n)" by linarith
  then have "max \<lfloor>log 2 \<bar>x\<bar>\<rfloor> (- 1022) = - int (Suc n)" using pos assms(3) by simp
  then have "real_of_int (max \<lfloor>log 2 \<bar>x\<bar>\<rfloor> (- 1022)) - 52 = - real (n + 53)"
    by simp
  then have "double_ulp x = 2 powr (- real (n + 53))"
    by (simp only: double_ulp_def)
  then have "double_ulp x = 1 / 2 ^ (n + 53)"
    by (simp only: two_powr_neg)
  then show ?thesis using pos by (simp add: round_to_double_def)
qed

text \<open>The weights: \<^verbatim>\<open>0.4\<close> is \<^verbatim>\<open>0x1.999999999999ap-2\<close> and \<^verbatim>\<open>0.3\<close> is \<^verbatim>\<open>0x1.3333333333333p-2\<close>.\<close>

lemma weight_semantic_value: "weight_semantic = 3602879701896397 / 2 ^ 53"
  unfolding weight_semantic_def
  using round_to_double_binade [of 1 "4 / 10"] by (simp add: round_half_even_def)

lemma weight_keyword_value: "weight_keyword = 5404319552844595 / 2 ^ 54"
  unfolding weight_keyword_def
  using round_to_double_binade [of 1 "3 / 10"] by (simp add: round_half_even_def)

lemma weight_content_value: "weight_content = 5404319552844595 / 2 ^ 54"
  unfolding weight_content_def
  using round_to_double_binade [of 1 "3 / 10"] by (simp add: round_half_even_def)

text \<open>The run of \<^verbatim>\<open>_combine_scores(0.125, 0.75, 0.75)\<close>, operation by operation.\<close>

lemma product_semantic_eighth:
  "round_to_double (1 / 8 * weight_semantic) = 3602879701896397 / 2 ^ 56"
  unfolding weight_semantic_value
  using round_to_double_binade [of 4 "1 / 8 * (3602879701896397 / 2 ^ 53)"]
  by (simp add: round_half_even_def)

lemma product_keyword_three_quarters:
  "round_to_double (3 / 4 * weight_keyword) = 2026619832316723 / 2 ^ 53"
  unfolding weight_keyword_value
  using round_to_double_binade [of 2 "3 / 4 * (5404319552844595 / 2 ^ 54)"]
  by (simp add: round_half_even_def)

lemma product_content_three_quarters:
  "round_to_double (3 / 4 * weight_content) = 2026619832316723 / 2 ^ 53"
  unfolding weight_content_value
  using round_to_double_binade [of 2 "3 / 4 * (5404319552844595 / 2 ^ 54)"]
  by (simp add: round_half_even_def)

lemma first_sum_run:
  "round_to_double (3602879701896397 / 2 ^ 56 + 2026619832316723 / 2 ^ 53)
   = 4953959590107545 / 2 ^ 54"
  using round_to_double_binade [of 1 "3602879701896397 / 2 ^ 56 + 2026619832316723 / 2 ^ 53"]
  by (simp add: round_half_even_def)

lemma second_sum_run:
  "round_to_double (4953959590107545 / 2 ^ 54 + 2026619832316723 / 2 ^ 53)
   = 9007199254740991 / 2 ^ 54"
  using round_to_double_binade [of 1 "4953959590107545 / 2 ^ 54 + 2026619832316723 / 2 ^ 53"]
  by (simp add: round_half_even_def)

lemma overall_score_run: "overall_score (1 / 8) (3 / 4) (3 / 4) = 9007199254740991 / 2 ^ 54"
  unfolding overall_score_def product_semantic_eighth product_keyword_three_quarters
    product_content_three_quarters first_sum_run second_sum_run
  by (rule refl)

text \<open>
  Claim C3.  For signals \<open>semantic\<close>, \<open>keyword\<close>, \<open>content\<close> in \<open>[0,1]\<close>, the score before
  clamping is the value of \<open>semantic * 0.4 + keyword * 0.3 + content * 0.3\<close> in double
  arithmetic; it lies within \<open>2\<^sup>-\<^sup>5\<^sup>0\<close> of the exact weighted sum, and so does the
  returned value, which lies in \<open>[0,1]\<close>.
\<close>

theorem combine_scores_near_weighted_sum:
  assumes "0 \<le> s" "s \<le> 1" "0 \<le> k" "k \<le> 1" "0 \<le> c" "c \<le> 1"
  shows "\<bar>overall_score s k c - (0.4 * s + 0.3 * k + 0.3 * c)\<bar> \<le> 1 / 2 ^ 50 \<and>
         \<bar>combine_scores s k c - (0.4 * s + 0.3 * k + 0.3 * c)\<bar> \<le> 1 / 2 ^ 50 \<and>
         0 \<le> combine_scores s k c \<and> combine_scores s k c \<le> 1"
proof -
  define d :: real where "d = 1 / 2 ^ 53"
  define p1 where "p1 = round_to_double (s * weight_semantic)"
  define p2 where "p2 = round_to_double (k * weight_keyword)"
  define p3 where "p3 = round_to_double (c * weight_content)"
  define a where "a = round_to_double (p1 + p2)"
  define r where "r = round_to_double (a + p3)"
  have r: "overall_score s k c = r"
    by (simp add: overall_score_def r_def a_def p1_def p2_def p3_def)
  have d: "0 < d" "d \<le> 1 / 100" "8 * d = 1 / 2 ^ 50" by (simp_all add: d_def)
  have sd: "0 \<le> s * d" "s * d \<le> d"
    using assms(1,2) d(1) by (simp_all add: mult_left_le_one_le)
  have kd: "0 \<le> k * d" "k * d \<le> d"
    using assms(3,4) d(1) by (simp_all add: mult_left_le_one_le)
  have cd: "0 \<le> c * d" "c * d \<le> d"
    using assms(5,6) d(1) by (simp_all add: mult_left_le_one_le)
  have w1: "weight_semantic = 4 / 10 + d / 5" by (simp add: weight_semantic_value d_def)
  have e1: "s * weight_semantic = 4 / 10 * s + (s * d) / 5"
    unfolding w1 by (simp add: algebra_simps)
  have w2: "weight_keyword = 3 / 10 - d / 10" by (simp add: weight_keyword_value d_def)
  have e2: "k * weight_keyword = 3 / 10 * k - (k * d) / 10"
    unfolding w2 by (simp add: algebra_simps)
  have w3: "weight_content = 3 / 10 - d / 10" by (simp add: weight_content_value d_def)
  have e3: "c * weight_content = 3 / 10 * c - (c * d) / 10"
    unfolding w3 by (simp add: algebra_simps)
  have "\<bar>s * weight_semantic\<bar> < 2" unfolding e1 using assms(1,2) sd d(2) by linarith
  then have "\<bar>p1 - s * weight_semantic\<bar> \<le> d"
    unfolding p1_def d_def by (rule round_to_double_error)
  then have b1: "\<bar>p1 - (4 / 10 * s + (s * d) / 5)\<bar> \<le> d" unfolding e1 .
  have "\<bar>k * weight_keyword\<bar> < 2" unfolding e2 using assms(3,4) kd d(2) by linarith
  then have "\<bar>p2 - k * weight_keyword\<bar> \<le> d"
    unfolding p2_def d_def by (rule round_to_double_error)
  then have b2: "\<bar>p2 - (3 / 10 * k - (k * d) / 10)\<bar> \<le> d" unfolding e2 .
  have "\<bar>c * weight_content\<bar> < 2" unfolding e3 using assms(5,6) cd d(2) by linarith
  then have "\<bar>p3 - c * weight_content\<bar> \<le> d"
    unfolding p3_def d_def by (rule round_to_double_error)
  then have b3: "\<bar>p3 - (3 / 10 * c - (c * d) / 10)\<bar> \<le> d" unfolding e3 .
  have "\<bar>p1 + p2\<bar> < 2" using b1 b2 assms sd kd d(2) by linarith
  then have b4: "\<bar>a - (p1 + p2)\<bar> \<le> d"
    unfolding a_def d_def by (rule round_to_double_error)
  have "\<bar>a + p3\<bar> < 2" using b1 b2 b3 b4 assms sd kd cd d(2) by linarith
  then have b5: "\<bar>r - (a + p3)\<bar> \<le> d"
    unfolding r_def d_def by (rule round_to_double_error)
  have near: "\<bar>r - (4 / 10 * s + 3 / 10 * k + 3 / 10 * c)\<bar> \<le> 8 * d"
    using b1 b2 b3 b4 b5 sd kd cd d(1) by linarith
  have exact: "0 \<le> 4 / 10 * s + 3 / 10 * k + 3 / 10 * c"
    "4 / 10 * s + 3 / 10 * k + 3 / 10 * c \<le> 1"
    using assms by linarith+
  have clamp: "\<bar>min (max r 0) 1 - (4 / 10 * s + 3 / 10 * k + 3 / 10 * c)\<bar> \<le> 8 * d"
    using near exact d(1) by (simp add: min_def max_def) linarith
  have range: "0 \<le> min (max r 0) 1" "min (max r 0) 1 \<le> 1" by simp_all
  show ?thesis
    unfolding r combine_scores_def d(3) [symmetric]
    using near clamp range by blast
qed

theorem combine_scores_near_weighted_sum_witness:
  "overall_score (1 / 8) (3 / 4) (3 / 4) = 9007199254740991 / 2 ^ 54 \<and>
   \<bar>overall_score (1 / 8) (3 / 4) (3 / 4) - 1 / 2\<bar> \<le> 1 / 2 ^ 50 \<and>
   combine_scores (1 / 8) (3 / 4) (3 / 4) \<le> 1"
  using combine_scores_near_weighted_sum [of "1 / 8" "3 / 4" "3 / 4"]
  by (simp add: overall_score_run)

text \<open>
  At \<open>(0.125, 0.75, 0.75)\<close> the exact weighted sum is \<open>0.5\<close>, and the score computed
  before clamping is \<open>0.49999999999999994\<close>.
\<close>

theorem combine_scores_not_exact_counterexample:
  "overall_score (1 / 8) (3 / 4) (3 / 4) \<noteq> 0.4 * (1 / 8) + 0.3 * (3 / 4) + 0.3 * (3 / 4)"
  by (simp add: overall_score_run)

text \<open>
  Claim C8.  The letter grade is monotone in the score: a lower score never gets a
  strictly higher grade.
\<close>

theorem get_grade_monotone:
  "s1 < s2 \<Longrightarrow> grade_rank (get_grade s1) \<le> grade_rank (get_grade s2)"
  by (simp add: get_grade_def grade_rank_def)

theorem get_grade_monotone_witness:
  "grade_rank (get_grade (45 / 100)) \<le> grade_rank (get_grade (85 / 100)) \<and>
   get_grade (45 / 100) = ''C'' \<and> get_grade (85 / 100) = ''A''"
  using get_grade_monotone [of "45 / 100" "85 / 100"] by (simp add: get_grade_def)

section \<open>Evaluator: the empty answer\<close>

lemma create_evaluation_zero:
  "create_evaluation 0 f a =
     \<lparr>ev_score = 0, ev_percentage = 0, ev_feedback = f, ev_analysis = a, ev_grade = ''F''\<rparr>"
  by (simp add: create_evaluation_def py_round_def round_half_even_def round_to_double_def
      get_grade_def)

text \<open>
  Claim C9.  For an empty user answer \<open>evaluate_answer\<close> returns an evaluation with score 0
  and does not raise.  The feedback it carries is \<open>No answer provided\<close>, without a full
  stop; the grade is \<open>F\<close>.
\<close>

theorem evaluate_answer_empty_answer:
  "evaluate_answer stop_words argsort np_mean emb question [] document_text =
     \<lparr>ev_score = 0, ev_percentage = 0, ev_feedback = ''No answer provided'',
      ev_analysis = ''Please provide a detailed answer.'', ev_grade = ''F''\<rparr>"
  by (simp add: evaluate_answer_def create_evaluation_zero split: option.split)

text \<open>The feedback string of the empty-answer evaluation has no trailing full stop.\<close>

theorem evaluate_answer_empty_feedback_counterexample:
  "ev_feedback (evaluate_answer [] argsort_ties_ascending sum_list None
      (Some \<lparr>q_question = ''What is the main topic discussed in this document?'',
             q_concepts = [''main topic'', ''document content''],
             q_type = ''comprehension'', q_difficulty = ''easy''\<rparr>)
      [] ''The cat sat on the mat. The mat was red. Cats like red mats.'')
   \<noteq> ''No answer provided.''"
  by (simp add: evaluate_answer_def create_evaluation_def)

theorem evaluate_answer_empty_answer_witness:
  "evaluate_answer [''the''] argsort_ties_ascending sum_list None
     (Some \<lparr>q_question = ''What is the main topic discussed in this document?'',
            q_concepts = [''main topic'', ''document content''],
            q_type = ''comprehension'', q_difficulty = ''easy''\<rparr>)
     [] ''The cat sat on the mat.'' =
   \<lparr>ev_score = 0, ev_percentage = 0, ev_feedback = ''No answer provided'',
    ev_analysis = ''Please provide a detailed answer.'', ev_grade = ''F''\<rparr>"
  using evaluate_answer_empty_answer [of "[''the'']" argsort_ties_ascending sum_list None
     "Some \<lparr>q_question = ''What is the main topic discussed in this document?'',
            q_concepts = [''main topic'', ''document content''],
            q_type = ''comprehension'', q_difficulty = ''easy''\<rparr>"
     "''The cat sat on the mat.''"]
  by simp

section \<open>Relevance ranker\<close>

lemma is_argsort_in_range: "is_argsort xs idx \<Longrightarrow> i \<in> set idx \<Longrightarrow> i < length xs"
  by (auto simp: is_argsort_def)

lemma argsort_ties_ascending_ok: "is_argsort xs (argsort_ties_ascending xs)"
  by (simp add: is_argsort_def argsort_ties_ascending_def)

lemma argsort_ties_descending_ok: "is_argsort xs (argsort_ties_descending xs)"
proof -
  have "sorted (map (\<lambda>i. - (xs ! i)) (sort_key (\<lambda>i. - (xs ! i)) [0..<length xs]))"
    by (rule sorted_sort_key)
  then have "sorted_wrt (\<lambda>i j. xs ! j \<le> xs ! i) (sort_key (\<lambda>i. - (xs ! i)) [0..<length xs])"
    by (simp add: sorted_map)
  then have "sorted_wrt (\<lambda>i j. xs ! i \<le> xs ! j)
      (rev (sort_key (\<lambda>i. - (xs ! i)) [0..<length xs]))"
    by (simp add: sorted_wrt_rev)
  then show ?thesis
    by (simp add: is_argsort_def argsort_ties_descending_def sorted_map)
qed

text \<open>The indices an argsort yields, best first, cut to \<open>k\<close> and to the threshold.\<close>

lemma kept_indices_descending:
  assumes "is_argsort sims idx"
  shows "sorted_wrt (\<lambda>i j. sims ! j \<le> sims ! i)
           (filter (\<lambda>i. sims ! i > 3 / 10) (take k (rev idx)))"
proof -
  have "sorted_wrt (\<lambda>i j. sims ! i \<le> sims ! j) idx"
    using assms by (simp add: is_argsort_def sorted_map)
  then have "sorted_wrt (\<lambda>i j. sims ! j \<le> sims ! i) (rev idx)"
    by (simp add: sorted_wrt_rev)
  then show ?thesis
    by (intro sorted_wrt_filter sorted_wrt_take)
qed

lemma kept_indices_in_range:
  assumes "is_argsort sims idx" "i \<in> set (take k (rev idx))"
  shows "i < length sims"
proof -
  from assms(2) have "i \<in> set (rev idx)" by (rule in_set_takeD)
  then show ?thesis using assms(1) by (simp add: is_argsort_in_range)
qed

lemma kept_indices_nonempty:
  assumes "is_argsort sims idx" "0 < k" "m < length sims" "sims ! m > 3 / 10"
  shows "filter (\<lambda>i. sims ! i > 3 / 10) (take k (rev idx)) \<noteq> []"
proof -
  have m: "m \<in> set (rev idx)" using assms(1,3) by (simp add: is_argsort_def)
  then obtain h t where ht: "rev idx = h # t" by (cases "rev idx") auto
  have "sorted_wrt (\<lambda>i j. sims ! i \<le> sims ! j) idx"
    using assms(1) by (simp add: is_argsort_def sorted_map)
  then have "sorted_wrt (\<lambda>i j. sims ! j \<le> sims ! i) (h # t)"
    unfolding ht [symmetric] by (simp add: sorted_wrt_rev)
  then have "sims ! m \<le> sims ! h" using m ht by auto
  with assms(4) have "sims ! h > 3 / 10" by linarith
  moreover obtain k' where "k = Suc k'" using assms(2) by (cases k) auto
  ultimately show ?thesis by (simp add: ht)
qed

lemma relevant_candidates_ok:
  assumes "is_argsort (map g cands) (argsort (map g cands))"
  shows "relevant_candidates argsort k (map g cands) cands =
           Inr (map (\<lambda>i. cands ! i)
                  (filter (\<lambda>i. map g cands ! i > 3 / 10) (take k (rev (argsort (map g cands))))))"
proof -
  have "\<forall>i \<in> set (take k (rev (argsort (map g cands)))). i < length cands"
    using kept_indices_in_range [OF assms] by auto
  then have "\<not> list_ex (\<lambda>i. length (map g cands) \<le> i \<or>
      (map g cands ! i > 3 / 10 \<and> length cands \<le> i)) (take k (rev (argsort (map g cands))))"
    by (auto simp: list_ex_iff)
  then show ?thesis by (simp add: relevant_candidates_def Let_def)
qed

lemma relevant_candidates_below_threshold:
  assumes "is_argsort (map g cands) (argsort (map g cands))"
    and "\<forall>c \<in> set cands. \<not> g c > 3 / 10"
  shows "relevant_candidates argsort k (map g cands) cands = Inr []"
proof -
  have "\<forall>i \<in> set (take k (rev (argsort (map g cands)))). \<not> map g cands ! i > 3 / 10"
  proof
    fix i assume "i \<in> set (take k (rev (argsort (map g cands))))"
    then have "i < length cands" using kept_indices_in_range [OF assms(1)] by auto
    then show "\<not> map g cands ! i > 3 / 10" using assms(2) by simp
  qed
  then have "filter (\<lambda>i. map g cands ! i > 3 / 10) (take k (rev (argsort (map g cands)))) = []"
    by (simp add: filter_empty_conv)
  then show ?thesis by (simp add: relevant_candidates_ok [of g cands argsort, OF assms(1)])
qed

lemma relevant_candidates_ranked:
  assumes "is_argsort (map g cands) (argsort (map g cands))"
    and "\<exists>c \<in> set cands. g c > 3 / 10" and "0 < k"
  shows "\<exists>r. relevant_candidates argsort k (map g cands) cands = Inr r \<and> r \<noteq> [] \<and>
           length r \<le> k \<and> sorted_wrt (\<lambda>a b. g b \<le> g a) r \<and>
           (\<forall>c \<in> set r. c \<in> set cands \<and> g c > 3 / 10)"
proof -
  define kept where
    "kept = filter (\<lambda>i. map g cands ! i > 3 / 10) (take k (rev (argsort (map g cands))))"
  have r: "relevant_candidates argsort k (map g cands) cands = Inr (map (\<lambda>i. cands ! i) kept)"
    unfolding kept_def by (rule relevant_candidates_ok [of g cands argsort, OF assms(1)])
  have range: "i < length cands" if "i \<in> set kept" for i
    using that kept_indices_in_range [OF assms(1)] by (auto simp: kept_def)
  have above: "g (cands ! i) > 3 / 10" if "i \<in> set kept" for i
    using that range [OF that] by (auto simp: kept_def)
  from assms(2) obtain m where "m < length cands" "g (cands ! m) > 3 / 10"
    by (auto simp: in_set_conv_nth)
  then have "kept \<noteq> []"
    unfolding kept_def by (intro kept_indices_nonempty [OF assms(1) assms(3), of m]) simp_all
  moreover have "length kept \<le> k"
  proof -
    have "length kept \<le> length (take k (rev (argsort (map g cands))))"
      unfolding kept_def by (rule length_filter_le)
    then show ?thesis by simp
  qed
  moreover have "sorted_wrt (\<lambda>a b. g b \<le> g a) (map (\<lambda>i. cands ! i) kept)"
  proof -
    have "sorted_wrt (\<lambda>i j. map g cands ! j \<le> map g cands ! i) kept"
      unfolding kept_def by (rule kept_indices_descending [OF assms(1)])
    then have "sorted_wrt (\<lambda>i j. g (cands ! j) \<le> g (cands ! i)) kept"
      by (rule sorted_wrt_mono_rel [rotated]) (simp add: range)
    then show ?thesis by (simp add: sorted_wrt_map)
  qed
  moreover have "\<forall>c \<in> set (map (\<lambda>i. cands ! i) kept). c \<in> set cands \<and> g c > 3 / 10"
    using range above by auto
  ultimately show ?thesis using r by auto
qed

lemma relevant_candidates_subset:
  assumes "relevant_candidates argsort k sims cands = Inr r"
  shows "set r \<subseteq> set cands"
proof -
  define top where "top = take k (rev (argsort sims))"
  have ok: "\<not> list_ex (\<lambda>i. length sims \<le> i \<or> (sims ! i > 3 / 10 \<and> length cands \<le> i)) top"
    and r: "r = map (\<lambda>i. cands ! i) (filter (\<lambda>i. sims ! i > 3 / 10) top)"
    using assms by (auto simp: relevant_candidates_def Let_def top_def split: if_splits)
  have "i < length cands" if "i \<in> set (filter (\<lambda>i. sims ! i > 3 / 10) top)" for i
    using that ok by (auto simp: list_ex_iff not_le)
  then show ?thesis unfolding r by auto
qed

lemma find_relevant_chunks_subset:
  "set (find_relevant_chunks argsort emb question chunks) \<subseteq> set chunks"
proof -
  have "set (take n chunks) \<subseteq> set chunks" for n by (rule set_take_subset)
  then show ?thesis
    by (auto simp: find_relevant_chunks_def split: option.splits sum.splits
        dest: relevant_candidates_subset in_set_takeD)
qed

text \<open>
  Claim C1.  With the embedder available and no candidate above the 0.3 threshold, the
  chunk ranker returns the first 2 chunks in document order, and the sentence ranker the
  first 3 sentences; the result is empty only if there is no candidate.
\<close>

theorem ranker_below_threshold_returns_prefix:
  "(is_argsort (map (cos_sim e q) chunks) (argsort (map (cos_sim e q) chunks)) \<and>
    \<not> raises e q chunks \<and> (\<forall>c \<in> set chunks. \<not> cos_sim e q c > 3 / 10)
    \<longrightarrow> find_relevant_chunks argsort (Some e) q chunks = take 2 chunks \<and>
        (chunks \<noteq> [] \<longrightarrow> find_relevant_chunks argsort (Some e) q chunks \<noteq> []))
   \<and>
   (is_argsort (map (cos_sim e' q') (split_into_sentences doc))
      (argsort' (map (cos_sim e' q') (split_into_sentences doc))) \<and>
    \<not> raises e' q' (split_into_sentences doc) \<and>
    (\<forall>s \<in> set (split_into_sentences doc). \<not> cos_sim e' q' s > 3 / 10)
    \<longrightarrow> find_relevant_sentences argsort' (Some e') q' doc = take 3 (split_into_sentences doc) \<and>
        (split_into_sentences doc \<noteq> [] \<longrightarrow> find_relevant_sentences argsort' (Some e') q' doc \<noteq> []))"
proof (intro conjI impI)
  assume h: "is_argsort (map (cos_sim e q) chunks) (argsort (map (cos_sim e q) chunks)) \<and>
    \<not> raises e q chunks \<and> (\<forall>c \<in> set chunks. \<not> cos_sim e q c > 3 / 10)"
  then have "relevant_candidates argsort 3 (map (cos_sim e q) chunks) chunks = Inr []"
    by (intro relevant_candidates_below_threshold) auto
  with h show c: "find_relevant_chunks argsort (Some e) q chunks = take 2 chunks"
    by (simp add: find_relevant_chunks_def similarities_of_def)
  assume "chunks \<noteq> []"
  then show "find_relevant_chunks argsort (Some e) q chunks \<noteq> []" unfolding c by simp
next
  assume h: "is_argsort (map (cos_sim e' q') (split_into_sentences doc))
      (argsort' (map (cos_sim e' q') (split_into_sentences doc))) \<and>
    \<not> raises e' q' (split_into_sentences doc) \<and>
    (\<forall>s \<in> set (split_into_sentences doc). \<not> cos_sim e' q' s > 3 / 10)"
  then have "relevant_candidates argsort' 5 (map (cos_sim e' q') (split_into_sentences doc))
      (split_into_sentences doc) = Inr []"
    by (intro relevant_candidates_below_threshold) auto
  with h show s: "find_relevant_sentences argsort' (Some e') q' doc
      = take 3 (split_into_sentences doc)"
    by (simp add: find_relevant_sentences_def similarities_of_def Let_def)
  assume "split_into_sentences doc \<noteq> []"
  then show "find_relevant_sentences argsort' (Some e') q' doc \<noteq> []" unfolding s by simp
qed

lemma example_low_embedder_simps:
  "cos_sim example_low_embedder q c = real (length c) / 100"
  "raises example_low_embedder q cs = False"
  by (simp_all add: example_low_embedder_def)

lemma example_tie_embedder_simps:
  "cos_sim example_tie_embedder q c = 1 / 2"
  "raises example_tie_embedder q cs = False"
  by (simp_all add: example_tie_embedder_def)

theorem ranker_below_threshold_returns_prefix_witness:
  "find_relevant_chunks argsort_ties_ascending (Some example_low_embedder)
     ''What color is the mat?'' [''chunk a'', ''chunk bb'', ''chunk ccc'']
     = [''chunk a'', ''chunk bb''] \<and>
   find_relevant_sentences argsort_ties_descending (Some example_low_embedder)
     ''What color is the mat?''
     ''The cat sat on the mat. The mat was red. Cats like red mats.'' =
     [''The cat sat on the mat.'', ''The mat was red.'', ''Cats like red mats.'']"
  using ranker_below_threshold_returns_prefix [of example_low_embedder
      "''What color is the mat?''" "[''chunk a'', ''chunk bb'', ''chunk ccc'']"
      argsort_ties_ascending example_low_embedder "''What color is the mat?''"
      "''The cat sat on the mat. The mat was red. Cats like red mats.''"
      argsort_ties_descending]
    argsort_ties_ascending_ok argsort_ties_descending_ok
  by (simp add: example_low_embedder_simps split_into_sentences_cat)

text \<open>
  The two chunks returned are the first two of the document, not the two of highest
  similarity: here the third chunk has the highest similarity and is left out.
\<close>

theorem ranker_below_threshold_counterexample:
  "find_relevant_chunks argsort_ties_ascending (Some example_low_embedder)
     ''What color is the mat?'' [''chunk a'', ''chunk bb'', ''chunk ccc''] \<noteq>
   spec_top_k_by_similarity 2
     (map (cos_sim example_low_embedder ''What color is the mat?'')
        [''chunk a'', ''chunk bb'', ''chunk ccc''])
     [''chunk a'', ''chunk bb'', ''chunk ccc'']"
  by (simp add: find_relevant_chunks_def similarities_of_def example_low_embedder_simps
      relevant_candidates_def spec_top_k_by_similarity_def argsort_ties_ascending_def upt_rec)

text \<open>
  Claim C5.  In the primary path, when some candidate clears the threshold, the ranker
  returns at most \<open>K\<close> candidates, all above the threshold, in descending order of
  similarity.  The code does not fix the order of candidates with equal similarity: it
  is the reverse of the order in which \<open>argsort\<close> lists them.
\<close>

theorem ranker_descending_similarity:
  "(is_argsort (map (cos_sim e q) chunks) (argsort (map (cos_sim e q) chunks)) \<and>
    \<not> raises e q chunks \<and> (\<exists>c \<in> set chunks. cos_sim e q c > 3 / 10)
    \<longrightarrow> find_relevant_chunks argsort (Some e) q chunks \<noteq> [] \<and>
        length (find_relevant_chunks argsort (Some e) q chunks) \<le> 3 \<and>
        sorted_wrt (\<lambda>a b. cos_sim e q b \<le> cos_sim e q a)
          (find_relevant_chunks argsort (Some e) q chunks) \<and>
        (\<forall>c \<in> set (find_relevant_chunks argsort (Some e) q chunks).
           c \<in> set chunks \<and> cos_sim e q c > 3 / 10))
   \<and>
   (is_argsort (map (cos_sim e' q') (split_into_sentences doc))
      (argsort' (map (cos_sim e' q') (split_into_sentences doc))) \<and>
    \<not> raises e' q' (split_into_sentences doc) \<and>
    (\<exists>s \<in> set (split_into_sentences doc). cos_sim e' q' s > 3 / 10)
    \<longrightarrow> find_relevant_sentences argsort' (Some e') q' doc \<noteq> [] \<and>
        length (find_relevant_sentences argsort' (Some e') q' doc) \<le> 5 \<and>
        sorted_wrt (\<lambda>a b. cos_sim e' q' b \<le> cos_sim e' q' a)
          (find_relevant_sentences argsort' (Some e') q' doc) \<and>
        (\<forall>s \<in> set (find_relevant_sentences argsort' (Some e') q' doc).
           s \<in> set (split_into_sentences doc) \<and> cos_sim e' q' s > 3 / 10))"
proof (rule conjI; rule impI)
  assume h: "is_argsort (map (cos_sim e q) chunks) (argsort (map (cos_sim e q) chunks)) \<and>
    \<not> raises e q chunks \<and> (\<exists>c \<in> set chunks. cos_sim e q c > 3 / 10)"
  then obtain r where r: "relevant_candidates argsort 3 (map (cos_sim e q) chunks) chunks = Inr r"
    "r \<noteq> []" "length r \<le> 3" "sorted_wrt (\<lambda>a b. cos_sim e q b \<le> cos_sim e q a) r"
    "\<forall>c \<in> set r. c \<in> set chunks \<and> cos_sim e q c > 3 / 10"
    using relevant_candidates_ranked [of "cos_sim e q" chunks argsort 3] by auto
  have "find_relevant_chunks argsort (Some e) q chunks = r"
    using h r(1,2) by (simp add: find_relevant_chunks_def similarities_of_def)
  with r show "find_relevant_chunks argsort (Some e) q chunks \<noteq> [] \<and>
        length (find_relevant_chunks argsort (Some e) q chunks) \<le> 3 \<and>
        sorted_wrt (\<lambda>a b. cos_sim e q b \<le> cos_sim e q a)
          (find_relevant_chunks argsort (Some e) q chunks) \<and>
        (\<forall>c \<in> set (find_relevant_chunks argsort (Some e) q chunks).
           c \<in> set chunks \<and> cos_sim e q c > 3 / 10)"
    by simp
next
  assume h: "is_argsort (map (cos_sim e' q') (split_into_sentences doc))
      (argsort' (map (cos_sim e' q') (split_into_sentences doc))) \<and>
    \<not> raises e' q' (split_into_sentences doc) \<and>
    (\<exists>s \<in> set (split_into_sentences doc). cos_sim e' q' s > 3 / 10)"
  then obtain r where r: "relevant_candidates argsort' 5
        (map (cos_sim e' q') (split_into_sentences doc)) (split_into_sentences doc) = Inr r"
    "r \<noteq> []" "length r \<le> 5" "sorted_wrt (\<lambda>a b. cos_sim e' q' b \<le> cos_sim e' q' a) r"
    "\<forall>s \<in> set r. s \<in> set (split_into_sentences doc) \<and> cos_sim e' q' s > 3 / 10"
    using relevant_candidates_ranked [of "cos_sim e' q'" "split_into_sentences doc" argsort' 5]
    by auto
  have "find_relevant_sentences argsort' (Some e') q' doc = r"
    using h r(1,2) by (simp add: find_relevant_sentences_def similarities_of_def Let_def)
  with r show "find_relevant_sentences argsort' (Some e') q' doc \<noteq> [] \<and>
        length (find_relevant_sentences argsort' (Some e') q' doc) \<le> 5 \<and>
        sorted_wrt (\<lambda>a b. cos_sim e' q' b \<le> cos_sim e' q' a)
          (find_relevant_sentences argsort' (Some e') q' doc) \<and>
        (\<forall>s \<in> set (find_relevant_sentences argsort' (Some e') q' doc).
           s \<in> set (split_into_sentences doc) \<and> cos_sim e' q' s > 3 / 10)"
    by simp
qed

lemma tie_chunks_ascending:
  "find_relevant_chunks argsort_ties_ascending (Some example_tie_embedder)
     ''What color is the mat?'' [''first chunk'', ''second chunk'']
   = [''second chunk'', ''first chunk'']"
  by (simp add: find_relevant_chunks_def similarities_of_def example_tie_embedder_simps
      relevant_candidates_def argsort_ties_ascending_def upt_rec)

lemma tie_chunks_descending:
  "find_relevant_chunks argsort_ties_descending (Some example_tie_embedder)
     ''What color is the mat?'' [''first chunk'', ''second chunk'']
   = [''first chunk'', ''second chunk'']"
  by (simp add: find_relevant_chunks_def similarities_of_def example_tie_embedder_simps
      relevant_candidates_def argsort_ties_descending_def upt_rec)

lemma tie_sentences_descending:
  "find_relevant_sentences argsort_ties_descending (Some example_tie_embedder)
     ''What color is the mat?''
     ''The cat sat on the mat. The mat was red. Cats like red mats.''
   = [''The cat sat on the mat.'', ''The mat was red.'', ''Cats like red mats.'']"
  by (simp add: find_relevant_sentences_def similarities_of_def example_tie_embedder_simps
      relevant_candidates_def argsort_ties_descending_def upt_rec split_into_sentences_cat)

text \<open>
  A run with an argsort that lists equal values in descending index order: the tied
  candidates come back in their original order.
\<close>

theorem ranker_descending_similarity_witness:
  "find_relevant_chunks argsort_ties_descending (Some example_tie_embedder)
     ''What color is the mat?'' [''first chunk'', ''second chunk'']
     = [''first chunk'', ''second chunk''] \<and>
   sorted_wrt (\<lambda>a b. cos_sim example_tie_embedder ''What color is the mat?'' b
                    \<le> cos_sim example_tie_embedder ''What color is the mat?'' a)
     (find_relevant_chunks argsort_ties_descending (Some example_tie_embedder)
        ''What color is the mat?'' [''first chunk'', ''second chunk'']) \<and>
   find_relevant_sentences argsort_ties_descending (Some example_tie_embedder)
     ''What color is the mat?''
     ''The cat sat on the mat. The mat was red. Cats like red mats.''
     = [''The cat sat on the mat.'', ''The mat was red.'', ''Cats like red mats.'']"
  using ranker_descending_similarity [of example_tie_embedder
      "''What color is the mat?''" "[''first chunk'', ''second chunk'']"
      argsort_ties_descending example_tie_embedder "''What color is the mat?''"
      "''The cat sat on the mat. The mat was red. Cats like red mats.''"
      argsort_ties_descending]
    argsort_ties_descending_ok
  by (simp add: example_tie_embedder_simps split_into_sentences_cat tie_chunks_descending
      tie_sentences_descending)

text \<open>
  A run with an argsort that lists equal values in index order: two chunks of equal
  similarity, both above the threshold, come back in the reverse of their original
  order.
\<close>

theorem ranker_ties_counterexample:
  "is_argsort [1 / 2, 1 / 2] (argsort_ties_ascending [1 / 2, 1 / 2]) \<and>
   cos_sim example_tie_embedder ''What color is the mat?'' ''first chunk'' =
     cos_sim example_tie_embedder ''What color is the mat?'' ''second chunk'' \<and>
   find_relevant_chunks argsort_ties_ascending (Some example_tie_embedder)
     ''What color is the mat?'' [''first chunk'', ''second chunk'']
   = [''second chunk'', ''first chunk'']"
  by (simp add: argsort_ties_ascending_ok example_tie_embedder_simps tie_chunks_ascending)

section \<open>QA engine: the lexical fallback\<close>

lemma intersection_size_Nil: "intersection_size [] b = 0"
  by (simp add: intersection_size_def)

lemma intersection_size_pos: "0 < intersection_size a b \<Longrightarrow> a \<noteq> []"
  by (auto simp: intersection_size_def)

lemma score_sentences_no_words: "score_sentences [] sentences = Inr []"
  by (induction sentences) (simp_all add: intersection_size_Nil)

lemma score_sentences_no_overlap:
  "\<forall>s \<in> set sentences. intersection_size question_words (length_filter_words s) = 0 \<Longrightarrow>
   score_sentences question_words sentences = Inr []"
  by (induction sentences) simp_all

text \<open>The division is never reached with an empty word set: the scoring loop cannot raise.\<close>

lemma score_sentences_total: "\<exists>scores. score_sentences question_words sentences = Inr scores"
proof (induction sentences)
  case Nil
  show ?case by simp
next
  case (Cons sentence rest)
  then obtain scores where r: "score_sentences question_words rest = Inr scores" by blast
  show ?case
  proof (cases "0 < intersection_size question_words (length_filter_words sentence)")
    case True
    then have "question_words \<noteq> []" by (rule intersection_size_pos)
    with True r show ?thesis by simp
  next
    case False
    with r show ?thesis by simp
  qed
qed

lemma generate_fallback_answer_total:
  "\<exists>answer evidence. generate_fallback_answer question chunks = Inr (answer, evidence)"
proof -
  obtain scores where
    "score_sentences (length_filter_words question) (concat (map split_into_sentences chunks))
       = Inr scores"
    using score_sentences_total by blast
  then show ?thesis by (simp add: generate_fallback_answer_def Let_def)
qed

text \<open>
  Claim C10.  When the question has no word longer than 3 characters, the lexical
  fallback does not raise on any chunk list (the overlap of an empty word set is 0, so
  the division is not reached) and returns the fixed could-not-find response with an
  empty evidence list.
\<close>

theorem generate_fallback_answer_short_words:
  assumes "\<forall>w \<in> set (findall_words (lower question)). length w \<le> 3"
  shows "generate_fallback_answer question chunks = Inr (could_not_find_answer, [])"
proof -
  have "\<forall>w \<in> set (word_set question). \<not> 3 < length w"
    using assms by (auto simp: word_set_def)
  then have "length_filter_words question = []"
    by (simp add: length_filter_words_def filter_empty_conv)
  then show ?thesis
    by (simp add: generate_fallback_answer_def score_sentences_no_words)
qed

lemma findall_words_is_it: "findall_words (lower ''Is it red?'') = [''is'', ''it'', ''red'']"
  by code_simp

theorem generate_fallback_answer_short_words_witness:
  "generate_fallback_answer ''Is it red?''
     [''The cat sat on the mat. The mat was red. Cats like red mats.'']
   = Inr (''I couldn't find a specific answer to your question in the document.'', [])"
  using generate_fallback_answer_short_words [of "''Is it red?''"
      "[''The cat sat on the mat. The mat was red. Cats like red mats.'']"]
  by (simp add: findall_words_is_it could_not_find_answer_def)

lemma split_document_into_chunks_cat:
  "split_document_into_chunks ''The cat sat on the mat. The mat was red. Cats like red mats.''
   = [''The cat sat on the mat. The mat was red. Cats like red mats.'']"
  by code_simp

lemma question_words_mat: "length_filter_words ''What color is the mat?'' = [''what'', ''color'']"
  by code_simp

lemma sentence_words_cat:
  "length_filter_words ''The cat sat on the mat.'' = []"
  "length_filter_words ''The mat was red.'' = []"
  "length_filter_words ''Cats like red mats.'' = [''cats'', ''like'', ''mats'']"
  by code_simp+

lemma fallback_cat_mat:
  "generate_fallback_answer ''What color is the mat?''
     [''The cat sat on the mat. The mat was red. Cats like red mats.'']
   = Inr (could_not_find_answer, [])"
  by (simp add: generate_fallback_answer_def split_into_sentences_cat question_words_mat
      sentence_words_cat intersection_size_def)

text \<open>
  Claim C4.  For the document \<open>The cat sat on the mat. The mat was red. Cats like red mats.\<close>
  and the question \<open>What color is the mat?\<close>, the question words longer than 3
  characters are \<open>what\<close> and \<open>color\<close>; no sentence of the document shares one, so the
  lexical fallback returns the could-not-find response with no evidence, whichever path
  the ranker takes.
\<close>

theorem fallback_answer_cat_scenario:
  "length_filter_words ''What color is the mat?'' = [''what'', ''color''] \<and>
   generate_fallback_answer ''What color is the mat?''
     (find_relevant_chunks argsort emb ''What color is the mat?''
        (split_document_into_chunks
           ''The cat sat on the mat. The mat was red. Cats like red mats.''))
   = Inr (could_not_find_answer, [])"
proof -
  define ranked where "ranked = find_relevant_chunks argsort emb ''What color is the mat?''
      [''The cat sat on the mat. The mat was red. Cats like red mats.'']"
  have "set ranked \<subseteq> {''The cat sat on the mat. The mat was red. Cats like red mats.''}"
    unfolding ranked_def using find_relevant_chunks_subset by fastforce
  then have "set (concat (map split_into_sentences ranked))
      \<subseteq> {''The cat sat on the mat.'', ''The mat was red.'', ''Cats like red mats.''}"
    using split_into_sentences_cat by auto
  then have "\<forall>s \<in> set (concat (map split_into_sentences ranked)).
      intersection_size [''what'', ''color''] (length_filter_words s) = 0"
    using sentence_words_cat by (auto simp: intersection_size_def)
  then have "score_sentences [''what'', ''color''] (concat (map split_into_sentences ranked))
      = Inr []"
    by (rule score_sentences_no_overlap)
  then have "generate_fallback_answer ''What color is the mat?'' ranked
      = Inr (could_not_find_answer, [])"
    by (simp add: generate_fallback_answer_def question_words_mat)
  then show ?thesis
    by (simp only: split_document_into_chunks_cat question_words_mat ranked_def simp_thms)
qed

theorem fallback_answer_cat_scenario_witness:
  "generate_fallback_answer ''What color is the mat?''
     (find_relevant_chunks argsort_ties_ascending None ''What color is the mat?''
        (split_document_into_chunks
           ''The cat sat on the mat. The mat was red. Cats like red mats.''))
   = Inr (''I couldn't find a specific answer to your question in the document.'', [])"
  using fallback_answer_cat_scenario [of argsort_ties_ascending None]
  by (simp add: could_not_find_answer_def)

text \<open>
  The answer produced for the scenario does not contain \<open>red\<close>, and the sentence
  \<open>The mat was red.\<close> is not among the evidence.
\<close>

theorem fallback_answer_cat_scenario_counterexample:
  "\<not> sublist ''red''
       (fst (projr (generate_fallback_answer ''What color is the mat?''
          [''The cat sat on the mat. The mat was red. Cats like red mats.'']))) \<and>
   ''The mat was red.'' \<notin>
     set (snd (projr (generate_fallback_answer ''What color is the mat?''
          [''The cat sat on the mat. The mat was red. Cats like red mats.''])))"
proof -
  have "\<not> sublist ''red'' could_not_find_answer"
    unfolding could_not_find_answer_def by code_simp
  then show ?thesis by (simp add: fallback_cat_mat)
qed

section \<open>QA engine: the span-extractor path\<close>

lemma split_into_sentences_mat_sky:
  "split_into_sentences ''The mat was red today.'' = [''The mat was red today.'']"
  "split_into_sentences ''The sky is blue today.'' = [''The sky is blue today.'']"
  by code_simp+

lemma example_pipeline_runs:
  "example_pipeline q ''The mat was red today.'' =
     Inr \<lparr>qa_score = 5 / 10, qa_answer = ''red'', qa_start = 12, qa_end = 15\<rparr>"
  "example_pipeline q ''The sky is blue today.'' =
     Inr \<lparr>qa_score = 9 / 10, qa_answer = ''blue'', qa_start = 11, qa_end = 15\<rparr>"
  unfolding example_pipeline_def by code_simp+

lemma first_sentence_containing_runs:
  "first_sentence_containing ''red'' [''The mat was red today.''] = [''The mat was red today.'']"
  "first_sentence_containing ''blue'' [''The sky is blue today.''] = [''The sky is blue today.'']"
  by code_simp+

lemma blue_not_in_mat_sentence: "\<not> sublist (lower ''blue'') (lower ''The mat was red today.'')"
  by code_simp

text \<open>
  Claim C2, run on two chunks.  The extractor answers \<open>red\<close> (0.5) on the first chunk and
  \<open>blue\<close> (0.9) on the second.  The winning answer is \<open>blue\<close>, and the evidence list still
  holds the sentence found for \<open>red\<close>, which does not contain \<open>blue\<close>.
\<close>

theorem generate_qa_answer_keeps_stale_evidence:
  "generate_qa_answer example_pipeline ''What color is it?''
     [''The mat was red today.'', ''The sky is blue today.'']
   = Inr (''blue'', [''The mat was red today.'', ''The sky is blue today.'']) \<and>
   \<not> sublist (lower ''blue'') (lower ''The mat was red today.'')"
  by (simp add: generate_qa_answer_def example_pipeline_runs split_into_sentences_mat_sky
      first_sentence_containing_runs blue_not_in_mat_sentence)

section \<open>Challenge generator\<close>

lemma random_sample_two:
  assumes "2 \<le> length xs"
  shows "\<exists>a b. random_sample rand pos xs 2 = Inr [a, b] \<and> a \<in> set xs \<and> b \<in> set xs"
proof -
  define i where "i = rand pos mod length xs"
  define rest where "rest = take i xs @ drop (Suc i) xs"
  define j where "j = rand (Suc pos) mod length rest"
  have "0 < length xs" using assms by linarith
  then have i: "i < length xs" unfolding i_def by (rule mod_less_divisor)
  then have len: "length rest = length xs - 1" by (simp add: rest_def)
  with assms have ne: "rest \<noteq> []" by auto
  then have j: "j < length rest" by (simp add: j_def)
  have "set rest \<subseteq> set xs"
    using set_take_subset [of i xs] set_drop_subset [of "Suc i" xs] by (auto simp: rest_def)
  with j have b: "rest ! j \<in> set xs" using nth_mem by blast
  have a: "xs ! i \<in> set xs" using i by simp
  have xs: "xs \<noteq> []" using assms by auto
  have "random_sample rand (Suc pos) rest (Suc 0) = Inr [rest ! j]"
    using ne by (simp add: j_def Let_def)
  then have "random_sample rand pos xs (Suc (Suc 0)) = Inr [xs ! i, rest ! j]"
    using xs by (simp add: i_def rest_def Let_def del: random_sample.simps(2))
      (simp add: Let_def)
  then show ?thesis using a b by (auto simp: numeral_2_eq_2)
qed

lemma generate_single_question_two:
  assumes "2 \<le> length key_concepts"
  shows "\<exists>qd. generate_single_question rand pos text key_concepts used_concepts = Inr (Some qd) \<and>
           q_type qd = ''logic'' \<and> length (q_concepts qd) = 2 \<and>
           set (q_concepts qd) \<subseteq> set key_concepts"
proof -
  define unused where "unused = filter (\<lambda>c. c \<notin> set used_concepts) key_concepts"
  define available where "available = (if length unused < 2 then take 2 key_concepts else unused)"
  have len: "2 \<le> length available" using assms by (simp add: available_def)
  have sub: "set available \<subseteq> set key_concepts"
    using set_take_subset [of 2 key_concepts] by (auto simp: available_def unused_def)
  from random_sample_two [OF len] obtain a b where
    s: "random_sample rand pos available 2 = Inr [a, b]" "a \<in> set available" "b \<in> set available"
    by blast
  have m: "min 2 (length available) = 2" using len by simp
  have "question_templates \<noteq> []" by (simp add: question_templates_def)
  then obtain template where t: "random_choice rand (pos + 2) question_templates = Inr template"
    by (simp add: random_choice_def)
  have "generate_single_question rand pos text key_concepts used_concepts =
      Inr (Some \<lparr>q_question = format_template template a a b a, q_concepts = [a, b],
                 q_type = ''logic'', q_difficulty = ''medium''\<rparr>)"
    using assms s(1) t m
    by (simp add: generate_single_question_def Let_def unused_def [symmetric]
        available_def [symmetric])
  with s(2,3) sub show ?thesis by auto
qed

lemma question_loop_all_logic:
  assumes "2 \<le> length key_concepts"
  shows "\<exists>qs. question_loop rand text key_concepts i n questions used_concepts
             = Inr (questions @ qs) \<and> length qs = n \<and>
           (\<forall>qd \<in> set qs. q_type qd = ''logic'' \<and> length (q_concepts qd) = 2 \<and>
              set (q_concepts qd) \<subseteq> set key_concepts)"
proof (induction n arbitrary: i questions used_concepts)
  case 0
  show ?case by simp
next
  case (Suc n)
  from generate_single_question_two [OF assms] obtain qd where
    qd: "generate_single_question rand (3 * i) text key_concepts used_concepts = Inr (Some qd)"
      "q_type qd = ''logic''" "length (q_concepts qd) = 2"
      "set (q_concepts qd) \<subseteq> set key_concepts"
    by blast
  from Suc [of "Suc i" "questions @ [qd]" "used_concepts @ q_concepts qd"] obtain qs where
    qs: "question_loop rand text key_concepts (Suc i) n (questions @ [qd])
           (used_concepts @ q_concepts qd) = Inr ((questions @ [qd]) @ qs)"
      "length qs = n"
      "\<forall>qd \<in> set qs. q_type qd = ''logic'' \<and> length (q_concepts qd) = 2 \<and>
          set (q_concepts qd) \<subseteq> set key_concepts"
    by blast
  have "question_loop rand text key_concepts i (Suc n) questions used_concepts
      = Inr (questions @ (qd # qs))"
    using qd(1) qs(1) by simp
  moreover have "length (qd # qs) = Suc n" using qs(2) by simp
  moreover have "\<forall>q \<in> set (qd # qs). q_type q = ''logic'' \<and> length (q_concepts q) = 2 \<and>
      set (q_concepts q) \<subseteq> set key_concepts"
    using qd(2,3,4) qs(3) by simp
  ultimately show ?case by blast
qed

declare pad_with_fallbacks.simps [simp del]

lemma pad_with_fallbacks_full:
  "3 \<le> length questions \<Longrightarrow>
   pad_with_fallbacks rand sent_tokenize text j questions = Inr questions"
  by (subst pad_with_fallbacks.simps) simp

lemma pad_with_fallbacks_length:
  "pad_with_fallbacks rand sent_tokenize doc j questions = Inr padded \<Longrightarrow> 3 \<le> length padded"
proof (induction rand sent_tokenize doc j questions rule: pad_with_fallbacks.induct)
  case (1 rand sent_tokenize doc j questions)
  show ?case
  proof (cases "length questions < 3")
    case False
    with "1.prems" have "padded = questions"
      by (subst (asm) pad_with_fallbacks.simps) simp
    with False show ?thesis by simp
  next
    case True
    from "1.prems" True obtain fallback where
      f: "generate_fallback_question rand (9 + j) sent_tokenize doc = Inr fallback"
        "pad_with_fallbacks rand sent_tokenize doc (Suc j) (questions @ [fallback]) = Inr padded"
      by (subst (asm) pad_with_fallbacks.simps) (auto split: sum.splits)
    from "1.IH" [OF True f(1) f(2)] show ?thesis .
  qed
qed

lemma generate_fallback_questions_length: "length generate_fallback_questions = 3"
  by (simp add: generate_fallback_questions_def)

lemma generate_questions_try_length:
  "generate_questions_try stop_words word_tokenize sent_tokenize rand document_text = Inr questions
   \<Longrightarrow> length questions = 3"
  by (auto simp: generate_questions_try_def generate_fallback_questions_length
      split: sum.splits if_splits dest: pad_with_fallbacks_length)

text \<open>Every path of \<open>generate_questions\<close> ends with exactly three questions.\<close>

lemma generate_questions_length:
  "length (generate_questions stop_words word_tokenize sent_tokenize rand document_text) = 3"
  by (auto simp: generate_questions_def generate_fallback_questions_length
      split: sum.splits dest: generate_questions_try_length)

text \<open>
  Claim C7.  For a document of at least 100 characters from which at least 2 key concepts
  are extracted, \<open>generate_questions\<close> returns exactly 3 questions.  When the document
  still has 100 characters after stripping, all three are template questions about two
  of the key concepts, and no padding takes place.
\<close>

theorem generate_questions_three:
  assumes "100 \<le> length document_text"
    and "extract_key_concepts stop_words word_tokenize document_text = Inr key_concepts"
    and "2 \<le> length key_concepts"
  shows "length (generate_questions stop_words word_tokenize sent_tokenize rand document_text) = 3
       \<and> (100 \<le> length (strip document_text) \<longrightarrow>
            (\<forall>qd \<in> set (generate_questions stop_words word_tokenize sent_tokenize rand
                           document_text).
               q_type qd = ''logic'' \<and> length (q_concepts qd) = 2 \<and>
               set (q_concepts qd) \<subseteq> set key_concepts))"
proof -
  from question_loop_all_logic [OF assms(3), of rand document_text 0 3 "[]" "[]"]
  obtain qs where
    qs: "question_loop rand document_text key_concepts 0 3 [] [] = Inr qs" "length qs = 3"
      "\<forall>qd \<in> set qs. q_type qd = ''logic'' \<and> length (q_concepts qd) = 2 \<and>
          set (q_concepts qd) \<subseteq> set key_concepts"
    by auto
  have "pad_with_fallbacks rand sent_tokenize document_text 0 qs = Inr qs"
    using qs(2) by (simp add: pad_with_fallbacks_full)
  then have run: "generate_questions_try stop_words word_tokenize sent_tokenize rand
      document_text = Inr qs"
    using assms(2,3) qs(1,2) by (simp add: generate_questions_try_def)
  have "100 \<le> length (strip document_text) \<Longrightarrow>
      generate_questions stop_words word_tokenize sent_tokenize rand document_text = qs"
    using assms(1) run by (auto simp: generate_questions_def)
  with qs(3) show ?thesis by (simp add: generate_questions_length)
qed

lemma example_document_length: "length example_document = 119"
  unfolding example_document_def by code_simp

lemma example_document_strip: "length (strip example_document) = 119"
  unfolding example_document_def by code_simp

lemma example_document_concepts:
  "extract_key_concepts [''the''] example_word_tokenize example_document
   = Inr [''climate'', ''ocean'']"
  unfolding example_document_def example_word_tokenize_def by code_simp

theorem generate_questions_three_witness:
  "length (generate_questions [''the''] example_word_tokenize example_sent_tokenize example_rng
      example_document) = 3 \<and>
   list_all (\<lambda>qd. q_type qd = ''logic'' \<and> set (q_concepts qd) \<subseteq> {''climate'', ''ocean''})
     (generate_questions [''the''] example_word_tokenize example_sent_tokenize example_rng
        example_document)"
  using generate_questions_three [of example_document "[''the'']" example_word_tokenize
      "[''climate'', ''ocean'']" example_sent_tokenize example_rng]
  by (simp add: example_document_length example_document_strip example_document_concepts
      list_all_iff)

end
